theory Spec2Isabelle
  imports Complex_Main
begin

section \<open>The training driver of main.py\<close>

text \<open>
  The script main.py is the driver of an adversarial actor-critic trainer. It parses the
  command line, builds the environments, the agent and the noise objects, and then runs
  epochs of cycles; a cycle is a rollout phase, an update phase, an evaluation phase and a
  checkpoint. The agent (ddpg.py), the action wrapper (normalized_actions.py), the noise
  classes, the replay memory and the serialisation helpers are collaborators whose code
  is in other modules: the driver below takes their behaviour as parameters (the record
  \<open>collab\<close>) and everything the script itself computes is written out.

  Conventions. Python integers are \<open>int\<close>. Floating-point numbers are idealised as
  \<open>real\<close> (no statement below depends on rounding); the one non-number that the driver can
  produce itself, the mean of an empty list, is the value \<open>NaN\<close>. A tensor or array is the
  list of its entries; device moves, dtype conversions and a batch dimension of size one
  (\<open>torch.tensor([x])\<close>, \<open>x.cpu().numpy()[0]\<close>) do not change the entries and are not
  modelled. An exception raised by the script itself is a value \<open>Inl e\<close>.
\<close>

subsection \<open>Command line and configuration\<close>

datatype mdp_type = Mdp | Pr_mdp | Nr_mdp

datatype oserror = FileExistsError | PermissionError | OtherError

datatype error =
    Exception string
  | AssertionError
  | ZeroDivisionError
  | OSError oserror

text \<open>
  What the user typed: an option is absent (\<open>None\<close>) or carries a value; a
  \<open>store_true\<close> flag is present or not. The options \<open>gamma\<close>, \<open>tau\<close>, \<open>noise_scale\<close>,
  \<open>hidden_size\<close>, \<open>replay_size\<close>, \<open>alpha\<close>, \<open>visualize\<close> and \<open>device\<close> only reach the
  constructors of the collaborators and are left out.
\<close>

record cli =
  cli_env_name :: "string option"
  cli_ou_noise :: bool
  cli_param_noise :: bool
  cli_batch_size :: "int option"
  cli_num_epochs :: "int option"
  cli_num_epochs_cycles :: "int option"
  cli_num_rollout_steps :: "int option"
  cli_num_steps :: "int option"
  cli_param_noise_interval :: "int option"
  cli_number_of_train_steps :: "int option"
  cli_method :: "mdp_type option"
  cli_ratio :: "int option"
  cli_flip_ratio :: bool
  cli_exploration_method :: "mdp_type option"
  cli_seed :: "int option"

text \<open>The namespace \<open>args\<close> that \<open>parser.parse_args()\<close> returns.\<close>

record args =
  env_name :: string
  ou_noise :: bool
  param_noise :: bool
  batch_size :: int
  num_epochs :: "int option"
  num_epochs_cycles :: int
  num_rollout_steps :: int
  num_steps :: "int option"
  param_noise_interval :: int
  number_of_train_steps :: int
  method' :: mdp_type
  ratio :: int
  flip_ratio :: bool
  exploration_method :: "mdp_type option"
  seed :: "int option"

definition or_default :: "'a \<Rightarrow> 'a option \<Rightarrow> 'a" where
  "or_default d given = (case given of None \<Rightarrow> d | Some v \<Rightarrow> v)"

text \<open>
  The parser of lines 52-87. \<open>--ou_noise\<close> is declared \<open>store_true\<close> with default
  \<open>True\<close>, so it is \<open>True\<close> whether the flag is present or not. \<open>--num_epochs\<close>,
  \<open>--exploration_method\<close> and \<open>--seed\<close> have the default \<open>None\<close>; \<open>--num_steps\<close> has the
  default 2000000.
\<close>

definition parse_args :: "cli \<Rightarrow> args" where
  "parse_args u =
     \<lparr> env_name = or_default ''halfcheetah'' (cli_env_name u),
       ou_noise = True,
       param_noise = cli_param_noise u,
       batch_size = or_default 64 (cli_batch_size u),
       num_epochs = cli_num_epochs u,
       num_epochs_cycles = or_default 20 (cli_num_epochs_cycles u),
       num_rollout_steps = or_default 100 (cli_num_rollout_steps u),
       num_steps = Some (or_default 2000000 (cli_num_steps u)),
       param_noise_interval = or_default 50 (cli_param_noise_interval u),
       number_of_train_steps = or_default 50 (cli_number_of_train_steps u),
       method' = or_default Nr_mdp (cli_method u),
       ratio = or_default 1 (cli_ratio u),
       flip_ratio = cli_flip_ratio u,
       exploration_method = cli_exploration_method u,
       seed = cli_seed u \<rparr>"

definition load_env_name :: "string \<Rightarrow> error + string" where
  "load_env_name env_type =
     (if env_type = ''halfcheetah'' then Inr ''HalfCheetah-v4''
      else if env_type = ''hopper'' then Inr ''Hopper-v4''
      else if env_type = ''walker2d'' then Inr ''Walker2d-v4''
      else Inl (Exception (''Environment '' @ env_type @ '' not available.'')))"

text \<open>Lines 89-93: the exploration method, the ratio and the environment name.\<close>

definition configure :: "args \<Rightarrow> error + args" where
  "configure a0 =
     (let a1 = (if exploration_method a0 = None
                then a0\<lparr>exploration_method := Some (method' a0)\<rparr> else a0);
          a2 = a1\<lparr>ratio := (if method' a1 = Pr_mdp then 10 else 1)\<rparr>
      in case load_env_name (env_name a2) of
           Inl e \<Rightarrow> Inl e
         | Inr n \<Rightarrow> Inr (a2\<lparr>env_name := n\<rparr>))"

subsection \<open>Values, objects and collaborators\<close>

type_synonym tensor = "real list"

datatype pyfloat = Float real | NaN

text \<open>\<open>np.mean\<close> of a Python list of floats; the mean of the empty list is \<open>nan\<close>.\<close>

definition np_mean :: "real list \<Rightarrow> pyfloat" where
  "np_mean xs = (if xs = [] then NaN else Float (sum_list xs / real (length xs)))"

text \<open>\<open>torch.stack(ts, 0)\<close>: the entries of the stacked tensors, in order.\<close>

definition stack :: "tensor list \<Rightarrow> tensor" where
  "stack ts = concat ts"

text \<open>
  Modelled from the spec: \<open>ddpg_distance_metric\<close> of param_noise.py, which is not among the
  sources. The specification calls it the root-mean-square difference between two arrays
  of actions: the square root of the mean of the squared entrywise differences.
\<close>

definition ddpg_distance_metric :: "tensor \<Rightarrow> tensor \<Rightarrow> pyfloat" where
  "ddpg_distance_metric actions1 actions2 =
     (case np_mean (map (\<lambda>(x, y). (x - y)\<^sup>2) (zip actions1 actions2)) of
        NaN \<Rightarrow> NaN
      | Float m \<Rightarrow> Float (sqrt m))"

text \<open>A stored transition: state, action, continuation mask, next state, reward.\<close>

type_synonym transition = "tensor \<times> tensor \<times> tensor \<times> tensor \<times> tensor"

text \<open>The two noise objects of lines 147-151; their mutable state is part of the world.\<close>

datatype noise = OrnsteinUhlenbeckActionNoise | AdaptiveParamNoiseSpec

text \<open>
  Environment objects. \<open>gym.make\<close> allocates a simulator in the object store, which maps
  addresses to simulator states; a variable holds a reference.

  Modelled from the spec: \<open>NormalizedActions\<close> of normalized_actions.py, which is not among
  the sources. The specification describes it as an external wrapper that bounds the action
  space to the normalised range: the wrapper object keeps a reference to the environment
  it was given, maps the action, and passes \<open>step\<close> and \<open>reset\<close> on to that environment.
\<close>

type_synonym addr = nat

datatype envref = Gym addr | NormalizedActions envref

text \<open>The dictionary \<open>hacky_indict\<close>: four keys at line 210, two more at lines 207-208.\<close>

record 'i hacky =
  k_reward :: real
  k_state :: tensor
  k_done :: bool
  k_info :: 'i
  k_pr_action :: "tensor option"
  k_adv_action :: "tensor option"

text \<open>The dictionary \<open>results_dict\<close> of lines 103-108, one field per key.\<close>

record results =
  eval_rewards :: "(int \<times> real) list"
  res_value_losses :: "(int \<times> pyfloat) list"
  res_policy_losses :: "(int \<times> pyfloat) list"
  res_adversary_losses :: "(int \<times> pyfloat) list"
  train_rewards :: "(int \<times> real) list"

text \<open>
  The collaborators. \<open>'w\<close> is the state of everything outside the script other than the
  simulators: the agent with its networks and replay memory, the noise objects, the random
  number generators and the file system. \<open>'e\<close> is the state of one simulator, \<open>'r\<close> the
  object that \<open>select_action\<close> returns (the rollout unpacks it into three tensors, the
  update and evaluation phases use it as one tensor), \<open>'i\<close> the \<open>info\<close> dictionary of the
  environment. The text of the paths (lines 113-141 and 281-284) comes from string
  formatting, the repository root and the clock; the record supplies it. A collaborator
  that raises is outside the model, except \<open>os.makedirs\<close>, whose exception is a result.
\<close>

record ('w, 'e, 'r, 'i) collab =
  seed_rngs :: "'w \<Rightarrow> int option \<Rightarrow> 'w"
  set_env_seed :: "'e \<Rightarrow> int option \<Rightarrow> 'e"
  gym_make :: "string \<Rightarrow> 'e"
  sim_step :: "'e \<Rightarrow> tensor \<Rightarrow> 'e \<times> tensor \<times> real \<times> bool \<times> bool \<times> 'i"
  sim_reset :: "'e \<Rightarrow> 'e \<times> tensor \<times> 'i"
  sim_close :: "'e \<Rightarrow> 'e"
  normalized_action :: "tensor \<Rightarrow> tensor"
  DDPG :: "'w \<Rightarrow> 'w"
  agent_train :: "'w \<Rightarrow> 'w"
  select_action :: "'w \<Rightarrow> tensor \<Rightarrow> noise option \<Rightarrow> noise option \<Rightarrow> mdp_type option \<Rightarrow> 'w \<times> 'r"
  unpack3 :: "'r \<Rightarrow> tensor \<times> tensor \<times> tensor"
  as_tensor :: "'r \<Rightarrow> tensor"
  store_transition :: "'w \<Rightarrow> transition \<Rightarrow> 'w"
  memory_len :: "'w \<Rightarrow> int"
  memory_sample :: "'w \<Rightarrow> int \<Rightarrow> 'w \<times> transition list"
  update_parameters :: "'w \<Rightarrow> int \<Rightarrow> mdp_type \<Rightarrow> bool \<Rightarrow> mdp_type option \<Rightarrow> 'w \<times> real \<times> real \<times> real"
  perturb_actor_parameters :: "'w \<Rightarrow> 'w"
  noise_reset :: "'w \<Rightarrow> 'w"
  adapt :: "'w \<Rightarrow> pyfloat \<Rightarrow> 'w"
  base_dir_of :: "args \<Rightarrow> string"
  dataset_dir :: "string"
  dataset_file :: "args \<Rightarrow> string"
  os_makedirs :: "'w \<Rightarrow> string \<Rightarrow> 'w \<times> oserror option"
  os_path_exists :: "'w \<Rightarrow> string \<Rightarrow> bool"
  save_model :: "'w \<Rightarrow> string \<Rightarrow> 'w"
  pickle_dump :: "'w \<Rightarrow> string \<Rightarrow> results \<Rightarrow> 'w"
  vis_plot :: "'w \<Rightarrow> results \<Rightarrow> 'w"
  json_dump :: "'w \<Rightarrow> string \<Rightarrow> (int \<Rightarrow> 'i hacky list) \<Rightarrow> 'w"

text \<open>
  \<open>env.step\<close> and \<open>env.reset\<close> through a reference, and \<open>env.close\<close>. A wrapper passes the
  call to the environment it wraps, so the simulator that changes is the one at the
  address the chain of wrappers ends in.
\<close>

fun env_step ::
  "('w, 'e, 'r, 'i) collab \<Rightarrow> (addr \<Rightarrow> 'e) \<Rightarrow> envref \<Rightarrow> tensor
     \<Rightarrow> (addr \<Rightarrow> 'e) \<times> tensor \<times> real \<times> bool \<times> bool \<times> 'i" where
  "env_step c h (Gym p) action =
     (let (e, out) = sim_step c (h p) action in (h(p := e), out))"
| "env_step c h (NormalizedActions inner) action =
     env_step c h inner (normalized_action c action)"

fun env_reset ::
  "('w, 'e, 'r, 'i) collab \<Rightarrow> (addr \<Rightarrow> 'e) \<Rightarrow> envref \<Rightarrow> (addr \<Rightarrow> 'e) \<times> tensor \<times> 'i" where
  "env_reset c h (Gym p) = (let (e, out) = sim_reset c (h p) in (h(p := e), out))"
| "env_reset c h (NormalizedActions inner) = env_reset c h inner"

fun env_close :: "('w, 'e, 'r, 'i) collab \<Rightarrow> (addr \<Rightarrow> 'e) \<Rightarrow> envref \<Rightarrow> (addr \<Rightarrow> 'e)" where
  "env_close c h (Gym p) = h(p := sim_close c (h p))"
| "env_close c h (NormalizedActions inner) = env_close c h inner"

text \<open>The simulator a reference ends in.\<close>

fun simulator_of :: "envref \<Rightarrow> addr" where
  "simulator_of (Gym p) = p"
| "simulator_of (NormalizedActions inner) = simulator_of inner"

subsection \<open>The variables of the script\<close>

text \<open>
  A call that the script makes to a collaborator, with its arguments (and, for
  \<open>update_parameters\<close>, the three losses it returned).
\<close>

datatype event =
    Call_makedirs string
  | Call_select_action tensor "noise option" "noise option" "mdp_type option"
  | Call_env_step envref tensor
  | Call_env_reset envref
  | Call_store_transition transition
  | Call_noise_reset
  | Call_perturb_actor_parameters
  | Call_sample int
  | Call_adapt pyfloat
  | Call_update_parameters int mdp_type bool "mdp_type option" real real real
  | Call_save_model string
  | Call_pickle_dump string
  | Call_vis_plot
  | Call_json_dump string
  | Call_close envref

text \<open>What one step of the training rollout saw and did.\<close>

datatype 'i step =
  Step (s_state: tensor) (s_reward: real) (s_done: bool) (s_trunc: bool) (s_info: 'i)
       (s_pr_mu: tensor) (s_adv_mu: tensor) (s_ep: int)

text \<open>
  The variables of the script, the world and the object store. The last two fields are
  history variables, not variables of the script: \<open>trace\<close> lists the calls to
  collaborators in the order they were made, \<open>rollout_log\<close> lists the steps of the
  training rollout. Nothing the script computes reads them.
\<close>

record ('w, 'e, 'i) vars =
  world :: 'w
  heap :: "addr \<Rightarrow> 'e"
  env :: envref
  eval_env :: envref
  state :: tensor
  eval_state :: tensor
  eval_reward :: real
  episode_reward :: real
  total_steps :: int
  train_steps :: int
  ep :: int
  hacky_indict :: "'i hacky option"
  hacky_store :: "int \<Rightarrow> 'i hacky list"
  results_dict :: results
  value_losses :: "real list"
  policy_losses :: "real list"
  adversary_losses :: "real list"
  trace :: "event list"
  rollout_log :: "'i step list"

subsection \<open>Loops and integer arithmetic\<close>

text \<open>
  \<open>for _ in range(n)\<close> runs its body \<open>n\<close> times and not at all when \<open>n\<close> is negative; no
  body below reads the loop variable. A body that cannot raise is iterated with
  \<open>^^\<close>; one that can raise stops the loop at the first exception.
\<close>

primrec repeat :: "nat \<Rightarrow> ('s \<Rightarrow> error + 's) \<Rightarrow> 's \<Rightarrow> error + 's" where
  "repeat 0 body s = Inr s"
| "repeat (Suc n) body s =
     (case body s of Inl e \<Rightarrow> Inl e | Inr s' \<Rightarrow> repeat n body s')"

text \<open>Python's \<open>%\<close> and \<open>//\<close> on integers: floored, and an exception when the divisor is 0.\<close>

definition py_mod :: "int \<Rightarrow> int \<Rightarrow> error + int" where
  "py_mod x y = (if y = 0 then Inl ZeroDivisionError else Inr (x mod y))"

definition py_floordiv :: "int \<Rightarrow> int \<Rightarrow> error + int" where
  "py_floordiv x y = (if y = 0 then Inl ZeroDivisionError else Inr (x div y))"

subsection \<open>The rollout phase\<close>

text \<open>Lines 147-151: a noise object exists only when its flag is set.\<close>

definition ounoise :: "args \<Rightarrow> noise option" where
  "ounoise a = (if ou_noise a then Some OrnsteinUhlenbeckActionNoise else None)"

definition param_noise_object :: "args \<Rightarrow> noise option" where
  "param_noise_object a = (if param_noise a then Some AdaptiveParamNoiseSpec else None)"

text \<open>Lines 154-158.\<close>

definition reset_noise ::
  "('w, 'e, 'r, 'i) collab \<Rightarrow> noise option \<Rightarrow> noise option
     \<Rightarrow> ('w, 'e, 'i) vars \<Rightarrow> ('w, 'e, 'i) vars" where
  "reset_noise c a_noise p_noise s =
     (let s1 = (if a_noise \<noteq> None
                then s\<lparr>world := noise_reset c (world s),
                       trace := trace s @ [Call_noise_reset]\<rparr>
                else s)
      in if p_noise \<noteq> None
         then s1\<lparr>world := perturb_actor_parameters c (world s1),
                 trace := trace s1 @ [Call_perturb_actor_parameters]\<rparr>
         else s1)"

text \<open>
  Lines 206-210, the bookkeeping of the dataset: the dictionary left by the previous step,
  if there is one, receives the two mean actions of the current step and is appended to
  the list of the current episode; then the dictionary of the current step is created.
\<close>

definition hacky_append ::
  "'i hacky option \<Rightarrow> int \<Rightarrow> tensor \<Rightarrow> tensor \<Rightarrow> (int \<Rightarrow> 'i hacky list) \<Rightarrow> int \<Rightarrow> 'i hacky list" where
  "hacky_append indict e pr_mu adv_mu store =
     (case indict of
        None \<Rightarrow> store
      | Some d \<Rightarrow>
          store(e := store e @ [d\<lparr>k_pr_action := Some pr_mu, k_adv_action := Some adv_mu\<rparr>]))"

text \<open>
  Lines 194-222, one step of the training rollout. The variable \<open>prev_action\<close> of line
  212 is never read and is left out.
\<close>

definition rollout_step ::
  "('w, 'e, 'r, 'i) collab \<Rightarrow> args \<Rightarrow> ('w, 'e, 'i) vars \<Rightarrow> ('w, 'e, 'i) vars" where
  "rollout_step c a s =
     (let (w1, r) = select_action c (world s) (state s) (ounoise a) (param_noise_object a)
                      (exploration_method a);
          (action, pr_mu, adv_mu) = unpack3 c r;
          (h1, next_state, reward, done, trunc, info) = env_step c (heap s) (env s) action;
          transition = (state s, action, [if done then 0 else 1], next_state, [reward]);
          s1 = s\<lparr>world := store_transition c w1 transition,
                 heap := h1,
                 total_steps := total_steps s + 1,
                 episode_reward := episode_reward s + reward,
                 hacky_store := hacky_append (hacky_indict s) (ep s) pr_mu adv_mu (hacky_store s),
                 hacky_indict :=
                   Some \<lparr>k_reward = reward, k_state = state s, k_done = done, k_info = info,
                         k_pr_action = None, k_adv_action = None\<rparr>,
                 state := next_state,
                 trace := trace s @
                   [Call_select_action (state s) (ounoise a) (param_noise_object a)
                      (exploration_method a),
                    Call_env_step (env s) action,
                    Call_store_transition transition],
                 rollout_log := rollout_log s @
                   [Step (state s) reward done trunc info pr_mu adv_mu (ep s)]\<rparr>
      in if done \<or> trunc
         then
           (let (h2, obs, info0) = env_reset c (heap s1) (env s1)
            in reset_noise c (ounoise a) (param_noise_object a)
                 (s1\<lparr>results_dict := (results_dict s1)
                        \<lparr>train_rewards := train_rewards (results_dict s1) @
                           [(total_steps s1, episode_reward s1)]\<rparr>,
                      episode_reward := 0,
                      ep := ep s1 + 1,
                      hacky_indict := None,
                      heap := h2,
                      state := obs,
                      trace := trace s1 @ [Call_env_reset (env s1)]\<rparr>))
         else s1)"

definition rollout_phase ::
  "('w, 'e, 'r, 'i) collab \<Rightarrow> args \<Rightarrow> ('w, 'e, 'i) vars \<Rightarrow> ('w, 'e, 'i) vars" where
  "rollout_phase c a s = (rollout_step c a ^^ nat (num_rollout_steps a)) s"

subsection \<open>The update phase\<close>

text \<open>
  Line 238. Python evaluates \<open>train_steps % args.ratio\<close> first, so a ratio of 0 raises
  before either flag is read.
\<close>

definition adversary_update :: "int \<Rightarrow> int \<Rightarrow> bool \<Rightarrow> error + bool" where
  "adversary_update steps r flip =
     (case py_mod steps r of
        Inl e \<Rightarrow> Inl e
      | Inr m \<Rightarrow> Inr ((m = 0 \<and> \<not> flip) \<or> (m \<noteq> 0 \<and> flip)))"

text \<open>Lines 229-236, the adaptation of the parameter noise.\<close>

definition adapt_param_noise ::
  "('w, 'e, 'r, 'i) collab \<Rightarrow> args \<Rightarrow> ('w, 'e, 'i) vars \<Rightarrow> ('w, 'e, 'i) vars" where
  "adapt_param_noise c a s =
     (let (w1, episode_transitions) = memory_sample c (world s) (batch_size a);
          states = stack (map (\<lambda>transition. fst transition) episode_transitions);
          (w2, r) = select_action c w1 states None None (Some Mdp);
          unperturbed_actions = as_tensor c r;
          perturbed_actions =
            stack (map (\<lambda>transition. fst (snd transition)) episode_transitions);
          ddpg_dist = ddpg_distance_metric perturbed_actions unperturbed_actions
      in s\<lparr>world := adapt c w2 ddpg_dist,
            trace := trace s @
              [Call_sample (batch_size a),
               Call_select_action states None None (Some Mdp),
               Call_adapt ddpg_dist]\<rparr>)"

text \<open>
  Lines 227-247, one update step. In line 227 the remainder is computed before
  \<open>args.param_noise\<close> is read, so an interval of 0 raises whether or not parameter noise is
  enabled.
\<close>

definition update_step ::
  "('w, 'e, 'r, 'i) collab \<Rightarrow> args \<Rightarrow> ('w, 'e, 'i) vars \<Rightarrow> error + ('w, 'e, 'i) vars" where
  "update_step c a s =
     (case py_mod (train_steps s) (param_noise_interval a) of
        Inl e \<Rightarrow> Inl e
      | Inr m \<Rightarrow>
          (let s1 = (if m = 0 \<and> param_noise a then adapt_param_noise c a s else s)
           in case adversary_update (train_steps s1) (ratio a) (flip_ratio a) of
                Inl e \<Rightarrow> Inl e
              | Inr adv \<Rightarrow>
                  (let (w1, value_loss, policy_loss, adversary_loss) =
                         update_parameters c (world s1) (batch_size a) (method' a) adv
                           (exploration_method a)
                   in Inr (s1\<lparr>world := w1,
                              value_losses := value_losses s1 @ [value_loss],
                              policy_losses := policy_losses s1 @ [policy_loss],
                              adversary_losses := adversary_losses s1 @ [adversary_loss],
                              train_steps := train_steps s1 + 1,
                              trace := trace s1 @
                                [Call_update_parameters (batch_size a) (method' a) adv
                                   (exploration_method a) value_loss policy_loss
                                   adversary_loss]\<rparr>))))"

text \<open>Lines 249-254, the bookkeeping that follows the update steps of a cycle.\<close>

definition record_losses :: "('w, 'e, 'i) vars \<Rightarrow> ('w, 'e, 'i) vars" where
  "record_losses s =
     s\<lparr>results_dict := (results_dict s)
          \<lparr>res_value_losses := res_value_losses (results_dict s) @
             [(total_steps s, np_mean (value_losses s))],
           res_policy_losses := res_policy_losses (results_dict s) @
             [(total_steps s, np_mean (policy_losses s))],
           res_adversary_losses := res_adversary_losses (results_dict s) @
             [(total_steps s, np_mean (adversary_losses s))]\<rparr>,
       value_losses := [],
       policy_losses := [],
       adversary_losses := []\<rparr>"

text \<open>Lines 225-254.\<close>

definition update_phase ::
  "('w, 'e, 'r, 'i) collab \<Rightarrow> args \<Rightarrow> ('w, 'e, 'i) vars \<Rightarrow> error + ('w, 'e, 'i) vars" where
  "update_phase c a s =
     (if memory_len c (world s) > batch_size a
      then (case repeat (nat (number_of_train_steps a)) (update_step c a) s of
              Inl e \<Rightarrow> Inl e
            | Inr s1 \<Rightarrow> Inr (record_losses s1))
      else Inr s)"

subsection \<open>The evaluation phase and the checkpoint\<close>

text \<open>
  Lines 258-269, one evaluation step. The call of line 258 passes the state and
  \<open>mdp_type\<close> only; the two noise parameters of \<open>select_action\<close> keep the default \<open>None\<close>
  that the specification gives them.
\<close>

definition eval_step ::
  "('w, 'e, 'r, 'i) collab \<Rightarrow> ('w, 'e, 'i) vars \<Rightarrow> ('w, 'e, 'i) vars" where
  "eval_step c s =
     (let (w1, r) = select_action c (world s) (eval_state s) None None (Some Mdp);
          action = as_tensor c r;
          (h1, next_eval_state, reward, done, trunc, info) =
            env_step c (heap s) (eval_env s) action;
          s1 = s\<lparr>world := w1,
                 heap := h1,
                 eval_reward := eval_reward s + reward,
                 eval_state := next_eval_state,
                 trace := trace s @
                   [Call_select_action (eval_state s) None None (Some Mdp),
                    Call_env_step (eval_env s) action]\<rparr>
      in if done \<or> trunc
         then
           (let (h2, obs, info0) = env_reset c (heap s1) (eval_env s1)
            in s1\<lparr>results_dict := (results_dict s1)
                     \<lparr>eval_rewards := eval_rewards (results_dict s1) @
                        [(total_steps s1, eval_reward s1)]\<rparr>,
                   heap := h2,
                   eval_state := obs,
                   eval_reward := 0,
                   trace := trace s1 @ [Call_env_reset (eval_env s1)]\<rparr>)
         else s1)"

definition eval_phase ::
  "('w, 'e, 'r, 'i) collab \<Rightarrow> args \<Rightarrow> ('w, 'e, 'i) vars \<Rightarrow> ('w, 'e, 'i) vars" where
  "eval_phase c a s = (eval_step c ^^ nat (num_rollout_steps a)) s"

text \<open>Lines 270-275.\<close>

definition checkpoint ::
  "('w, 'e, 'r, 'i) collab \<Rightarrow> string \<Rightarrow> ('w, 'e, 'i) vars \<Rightarrow> ('w, 'e, 'i) vars" where
  "checkpoint c base_dir s =
     (let w1 = save_model c (world s) base_dir;
          w2 = pickle_dump c w1 (base_dir @ ''/results'') (results_dict s);
          w3 = vis_plot c w2 (results_dict s)
      in s\<lparr>world := w3,
            trace := trace s @
              [Call_save_model base_dir, Call_pickle_dump (base_dir @ ''/results''),
               Call_vis_plot]\<rparr>)"

subsection \<open>Cycles, epochs and the whole script\<close>

definition cycle ::
  "('w, 'e, 'r, 'i) collab \<Rightarrow> args \<Rightarrow> string \<Rightarrow> ('w, 'e, 'i) vars
     \<Rightarrow> error + ('w, 'e, 'i) vars" where
  "cycle c a base_dir s =
     (case update_phase c a (rollout_phase c a s) of
        Inl e \<Rightarrow> Inl e
      | Inr s1 \<Rightarrow> Inr (checkpoint c base_dir (eval_phase c a s1)))"

definition epoch ::
  "('w, 'e, 'r, 'i) collab \<Rightarrow> args \<Rightarrow> string \<Rightarrow> ('w, 'e, 'i) vars
     \<Rightarrow> error + ('w, 'e, 'i) vars" where
  "epoch c a base_dir s = repeat (nat (num_epochs_cycles a)) (cycle c a base_dir) s"

definition train ::
  "('w, 'e, 'r, 'i) collab \<Rightarrow> args \<Rightarrow> string \<Rightarrow> int \<Rightarrow> ('w, 'e, 'i) vars
     \<Rightarrow> error + ('w, 'e, 'i) vars" where
  "train c a base_dir nb_epochs s = repeat (nat nb_epochs) (epoch c a base_dir) s"

text \<open>Lines 40-48. The two attribute assignments change the environment object itself.\<close>

definition set_seed_everywhere ::
  "('w, 'e, 'r, 'i) collab \<Rightarrow> int option \<Rightarrow> addr option \<Rightarrow> 'w \<times> (addr \<Rightarrow> 'e)
     \<Rightarrow> 'w \<times> (addr \<Rightarrow> 'e)" where
  "set_seed_everywhere c sd env_arg wh =
     (let (w, h) = wh;
          w1 = seed_rngs c w sd
      in case env_arg of
           None \<Rightarrow> (w1, h)
         | Some p \<Rightarrow> (w1, h(p := set_env_seed c (h p) sd)))"

text \<open>Lines 142-145: \<open>os.makedirs(base_dir)\<close> inside \<open>try\<close>, with a bare \<open>except: pass\<close>.\<close>

definition try_makedirs ::
  "('w, 'e, 'r, 'i) collab \<Rightarrow> 'w \<Rightarrow> string \<Rightarrow> error + 'w" where
  "try_makedirs c w base_dir =
     (let (w1, raised) = os_makedirs c w base_dir
      in case raised of
           None \<Rightarrow> Inr w1
         | Some e \<Rightarrow> Inr w1)"

text \<open>Lines 163-167.\<close>

definition nb_epochs_of :: "args \<Rightarrow> error + int" where
  "nb_epochs_of a =
     (case num_steps a of
        Some n \<Rightarrow>
          (if num_epochs a \<noteq> None then Inl AssertionError
           else py_floordiv n (num_epochs_cycles a * num_rollout_steps a))
      | None \<Rightarrow> Inr 500)"

text \<open>
  Lines 281-287: the directory of the datasets is created when it does not exist, and
  here an exception of \<open>os.makedirs\<close> is not caught; then the dataset is written and the
  training environment closed.
\<close>

definition export_dataset ::
  "('w, 'e, 'r, 'i) collab \<Rightarrow> args \<Rightarrow> ('w, 'e, 'i) vars \<Rightarrow> error + ('w, 'e, 'i) vars" where
  "export_dataset c a s =
     (let dir = dataset_dir c
      in case (if \<not> os_path_exists c (world s) dir
               then (let (w1, raised) = os_makedirs c (world s) dir
                     in case raised of
                          None \<Rightarrow> Inr (s\<lparr>world := w1, trace := trace s @ [Call_makedirs dir]\<rparr>)
                        | Some e \<Rightarrow> Inl (OSError e))
               else Inr s) of
           Inl e \<Rightarrow> Inl e
         | Inr s1 \<Rightarrow>
             Inr (s1\<lparr>world := json_dump c (world s1) (dataset_file c a) (hacky_store s1),
                     heap := env_close c (heap s1) (env s1),
                     trace := trace s1 @
                       [Call_json_dump (dataset_file c a), Call_close (env s1)]\<rparr>))"

text \<open>
  Lines 95-187: the number of epochs and the state in which the first epoch starts. \<open>w0\<close> and \<open>h0\<close> are the world
  and the object store when the script starts; \<open>gym.make\<close> puts the one simulator of the
  run at a fresh address, and both \<open>env\<close> and \<open>eval_env\<close> are built from the reference to
  it (lines 97 and 98).
\<close>

definition fresh :: "addr" where
  "fresh = 0"

definition initial ::
  "('w, 'e, 'r, 'i) collab \<Rightarrow> 'w \<Rightarrow> (addr \<Rightarrow> 'e) \<Rightarrow> args
     \<Rightarrow> error + int \<times> ('w, 'e, 'i) vars" where
  "initial c w0 h0 a =
     (let env0 = Gym fresh;
          h1 = h0(fresh := gym_make c (env_name a));
          (w1, h2) = set_seed_everywhere c (seed a) (Some fresh) (w0, h1);
          env1 = NormalizedActions env0;
          eval_env1 = NormalizedActions env1;
          w2 = DDPG c w1;
          base_dir = base_dir_of c a
      in case try_makedirs c w2 base_dir of
           Inl e \<Rightarrow> Inl e
         | Inr w3 \<Rightarrow>
             (case nb_epochs_of a of
                Inl e \<Rightarrow> Inl e
              | Inr nb_epochs \<Rightarrow>
                  (let (h3, obs, info0) = env_reset c h2 env1;
                       (h4, eval_obs, info1) = env_reset c h3 eval_env1
                   in Inr (nb_epochs, reset_noise c (ounoise a) (param_noise_object a)
                        \<lparr>world = agent_train c w3,
                         heap = h4,
                         env = env1,
                         eval_env = eval_env1,
                         state = obs,
                         eval_state = eval_obs,
                         eval_reward = 0,
                         episode_reward = 0,
                         total_steps = 0,
                         train_steps = 0,
                         ep = 0,
                         hacky_indict = None,
                         hacky_store = (\<lambda>e. []),
                         results_dict =
                           \<lparr>eval_rewards = [], res_value_losses = [], res_policy_losses = [],
                            res_adversary_losses = [], train_rewards = []\<rparr>,
                         value_losses = [],
                         policy_losses = [],
                         adversary_losses = [],
                         trace =
                           [Call_makedirs base_dir, Call_env_reset env1,
                            Call_env_reset eval_env1],
                         rollout_log = []\<rparr>))))"

text \<open>
  The script. Line 184 adds one to \<open>args.ratio\<close> after the name of the run directory has
  been formed and before the first epoch.
\<close>

definition main ::
  "('w, 'e, 'r, 'i) collab \<Rightarrow> 'w \<Rightarrow> (addr \<Rightarrow> 'e) \<Rightarrow> cli \<Rightarrow> error + ('w, 'e, 'i) vars" where
  "main c w0 h0 u =
     (case configure (parse_args u) of
        Inl e \<Rightarrow> Inl e
      | Inr a \<Rightarrow>
          (case initial c w0 h0 a of
             Inl e \<Rightarrow> Inl e
           | Inr (nb_epochs, s0) \<Rightarrow>
               (let a1 = a\<lparr>ratio := ratio a + 1\<rparr>
                in case train c a1 (base_dir_of c a) nb_epochs s0 of
                     Inl e \<Rightarrow> Inl e
                   | Inr s1 \<Rightarrow> export_dataset c a1 s1)))"

subsection \<open>A small concrete instance\<close>

text \<open>
  Collaborators small enough to run the script by hand. The world is the number of stored
  transitions; a simulator is a counter of the steps since its last reset, observed as a
  one-entry tensor, and its episode ends at the third step; \<open>select_action\<close> returns the
  state as the action and shifts it by 10 and by 20 for the two mean actions; sampling
  returns one fixed transition; \<open>os.makedirs\<close> has the outcome \<open>mk\<close>.
\<close>

definition toy :: "oserror option \<Rightarrow> (nat, nat, tensor \<times> tensor \<times> tensor, nat) collab" where
  "toy mk =
     \<lparr> seed_rngs = (\<lambda>w sd. w),
       set_env_seed = (\<lambda>e sd. e),
       gym_make = (\<lambda>name. 0),
       sim_step = (\<lambda>e action. (Suc e, [real (Suc e)], 1, Suc e = 3, False, e)),
       sim_reset = (\<lambda>e. (0, [0], 0)),
       sim_close = (\<lambda>e. e),
       normalized_action = (\<lambda>action. action),
       DDPG = (\<lambda>w. w),
       agent_train = (\<lambda>w. w),
       select_action = (\<lambda>w st a_noise p_noise mdp_type.
          (w, st, map (\<lambda>x. x + 10) st, map (\<lambda>x. x + 20) st)),
       unpack3 = (\<lambda>r. r),
       as_tensor = (\<lambda>r. fst r),
       store_transition = (\<lambda>w transition. Suc w),
       memory_len = (\<lambda>w. int w),
       memory_sample = (\<lambda>w n. (w, [([0], [1], [1], [1], [1])])),
       update_parameters = (\<lambda>w b m adv em. (w, 1, if adv then 0 else 2, if adv then 3 else 0)),
       perturb_actor_parameters = (\<lambda>w. w),
       noise_reset = (\<lambda>w. w),
       adapt = (\<lambda>w d. w),
       base_dir_of = (\<lambda>a. ''models''),
       dataset_dir = ''datasets'',
       dataset_file = (\<lambda>a. ''datasets/raw.json''),
       os_makedirs = (\<lambda>w d. (w, mk)),
       os_path_exists = (\<lambda>w d. True),
       save_model = (\<lambda>w d. w),
       pickle_dump = (\<lambda>w d r. w),
       vis_plot = (\<lambda>w r. w),
       json_dump = (\<lambda>w d store. w) \<rparr>"

text \<open>A command line that gives only the sizes: the other options are absent.\<close>

definition toy_cli :: "int \<Rightarrow> int \<Rightarrow> int \<Rightarrow> int \<Rightarrow> int \<Rightarrow> cli" where
  "toy_cli steps cycles rollout batch updates =
     \<lparr> cli_env_name = None,
       cli_ou_noise = False,
       cli_param_noise = False,
       cli_batch_size = Some batch,
       cli_num_epochs = None,
       cli_num_epochs_cycles = Some cycles,
       cli_num_rollout_steps = Some rollout,
       cli_num_steps = Some steps,
       cli_param_noise_interval = None,
       cli_number_of_train_steps = Some updates,
       cli_method = None,
       cli_ratio = None,
       cli_flip_ratio = False,
       cli_exploration_method = None,
       cli_seed = None \<rparr>"

definition toy_heap :: "addr \<Rightarrow> nat" where
  "toy_heap p = 0"

definition no_options :: "cli" where
  "no_options =
     \<lparr> cli_env_name = None, cli_ou_noise = False, cli_param_noise = False,
       cli_batch_size = None, cli_num_epochs = None, cli_num_epochs_cycles = None,
       cli_num_rollout_steps = None, cli_num_steps = None, cli_param_noise_interval = None,
       cli_number_of_train_steps = None, cli_method = None, cli_ratio = None,
       cli_flip_ratio = False, cli_exploration_method = None, cli_seed = None \<rparr>"

text \<open>
  The variables of the script between two phases of the small instance, with \<open>w\<close> stored
  transitions, nothing recorded yet and the simulator just reset.
\<close>

definition toy_vars :: "nat \<Rightarrow> (nat, nat, nat) vars" where
  "toy_vars w =
     \<lparr>world = w,
      heap = toy_heap,
      env = NormalizedActions (Gym 0),
      eval_env = NormalizedActions (NormalizedActions (Gym 0)),
      state = [0],
      eval_state = [0],
      eval_reward = 0,
      episode_reward = 0,
      total_steps = int w,
      train_steps = 0,
      ep = 0,
      hacky_indict = None,
      hacky_store = (\<lambda>e. []),
      results_dict =
        \<lparr>eval_rewards = [], res_value_losses = [], res_policy_losses = [],
         res_adversary_losses = [], train_rewards = []\<rparr>,
      value_losses = [],
      policy_losses = [],
      adversary_losses = [],
      trace = [],
      rollout_log = []\<rparr>"

text \<open>What a run that ended without an exception left in a variable.\<close>

definition outcome :: "('s \<Rightarrow> 'b) \<Rightarrow> error + 's \<Rightarrow> 'b option" where
  "outcome f r = (case r of Inl e \<Rightarrow> None | Inr s \<Rightarrow> Some (f s))"

subsection \<open>Reading the trace\<close>

text \<open>The value of \<open>adversary_update\<close> in each call of \<open>update_parameters\<close>, in order.\<close>

definition adversary_flags :: "event list \<Rightarrow> bool list" where
  "adversary_flags evs =
     concat (map (\<lambda>ev. case ev of
                          Call_update_parameters b m adv em vl pl al \<Rightarrow> [adv]
                        | _ \<Rightarrow> []) evs)"

text \<open>The three losses that each call of \<open>update_parameters\<close> returned, in order.\<close>

definition update_losses :: "event list \<Rightarrow> (real \<times> real \<times> real) list" where
  "update_losses evs =
     concat (map (\<lambda>ev. case ev of
                          Call_update_parameters b m adv em vl pl al \<Rightarrow> [(vl, pl, al)]
                        | _ \<Rightarrow> []) evs)"

text \<open>
  The calls of \<open>param_noise.adapt\<close> and of \<open>update_parameters\<close> in the order they were
  made: \<open>True\<close> stands for a call of \<open>adapt\<close>, \<open>False\<close> for a call of \<open>update_parameters\<close>.
\<close>

definition noise_schedule :: "event list \<Rightarrow> bool list" where
  "noise_schedule evs =
     concat (map (\<lambda>ev. case ev of
                          Call_adapt d \<Rightarrow> [True]
                        | Call_update_parameters b m adv em vl pl al \<Rightarrow> [False]
                        | _ \<Rightarrow> []) evs)"

text \<open>The noise arguments and the \<open>mdp_type\<close> of each call of \<open>select_action\<close>, in order.\<close>

definition selections :: "event list \<Rightarrow> (noise option \<times> noise option \<times> mdp_type option) list" where
  "selections evs =
     concat (map (\<lambda>ev. case ev of
                          Call_select_action st a_noise p_noise mdp_type \<Rightarrow>
                            [(a_noise, p_noise, mdp_type)]
                        | _ \<Rightarrow> []) evs)"

text \<open>The files that \<open>json.dump\<close> wrote, in order.\<close>

definition json_dumps :: "event list \<Rightarrow> string list" where
  "json_dumps evs =
     concat (map (\<lambda>ev. case ev of Call_json_dump f \<Rightarrow> [f] | _ \<Rightarrow> []) evs)"

text \<open>The calls that a phase added to the trace: those after the first \<open>n\<close>.\<close>

definition calls_since :: "('w, 'e, 'i) vars \<Rightarrow> ('w, 'e, 'i) vars \<Rightarrow> event list" where
  "calls_since s s' = drop (length (trace s)) (trace s')"

text \<open>
  The calls by which the parameter noise is to be adapted in state \<open>s\<close>: a batch is
  sampled; the unperturbed policy (no action noise, no parameter noise, \<open>mdp_type = 'mdp'\<close>)
  is asked for its actions on the states of that batch; and \<open>adapt\<close> receives the distance
  between the actions stored in the same batch and those unperturbed actions.
\<close>

definition expected_adaptation ::
  "('w, 'e, 'r, 'i) collab \<Rightarrow> args \<Rightarrow> ('w, 'e, 'i) vars \<Rightarrow> event list" where
  "expected_adaptation c a s =
     (let sampled = memory_sample c (world s) (batch_size a);
          batch = snd sampled;
          states = stack (map fst batch);
          unperturbed = as_tensor c (snd (select_action c (fst sampled) states None None (Some Mdp)));
          perturbed = stack (map (\<lambda>transition. fst (snd transition)) batch)
      in [Call_sample (batch_size a),
          Call_select_action states None None (Some Mdp),
          Call_adapt (ddpg_distance_metric perturbed unperturbed)])"

text \<open>The state of the simulator that the training environment \<open>env\<close> steps.\<close>

definition training_simulator :: "('w, 'e, 'i) vars \<Rightarrow> 'e" where
  "training_simulator s = heap s (simulator_of (env s))"

subsection \<open>Reading the rollout log\<close>

text \<open>A step after which the script starts a new episode.\<close>

definition ended :: "'i step \<Rightarrow> bool" where
  "ended x = (s_done x \<or> s_trunc x)"






text \<open>The entry that a step of the training rollout from state \<open>s\<close> adds to the log.\<close>

definition step_taken ::
  "('w, 'e, 'r, 'i) collab \<Rightarrow> args \<Rightarrow> ('w, 'e, 'i) vars \<Rightarrow> 'i step" where
  "step_taken c a s =
     (let (w1, r) = select_action c (world s) (state s) (ounoise a) (param_noise_object a)
                      (exploration_method a);
          (action, pr_mu, adv_mu) = unpack3 c r;
          (h1, next_state, reward, done, trunc, info) = env_step c (heap s) (env s) action
      in Step (state s) reward done trunc info pr_mu adv_mu (ep s))"


subsection \<open>An instance that records what the agent receives\<close>

text \<open>
  A second set of collaborators, in which the arguments of the calls leave their mark in
  the world and the actions move the simulator. The world holds the replay memory, the
  distances that \<open>adapt\<close> received and the noise arguments and \<open>mdp_type\<close> of every call of
  \<open>select_action\<close>. The protagonist's mean action is 0 in every state and parameter noise
  does not change it; action noise adds 1 to the action, and an \<open>mdp_type\<close> other than
  \<open>'mdp'\<close> adds the adversary's share 2. A simulator is a position and a step count: a
  step adds the action to the position, which is both the observation and the reward, and
  the fourth step since the last reset ends the episode. Sampling returns the oldest
  transitions of the memory.
\<close>

record toy_world =
  w_memory :: "transition list"
  w_adapted :: "pyfloat list"
  w_selected :: "(noise option \<times> noise option \<times> mdp_type option) list"

definition toy_world0 :: "toy_world" where
  "toy_world0 = \<lparr>w_memory = [], w_adapted = [], w_selected = []\<rparr>"

definition toy_noisy_heap :: "addr \<Rightarrow> real \<times> nat" where
  "toy_noisy_heap p = (0, 0)"

definition toy_noisy ::
  "oserror option \<Rightarrow> (toy_world, real \<times> nat, tensor \<times> tensor \<times> tensor, nat) collab" where
  "toy_noisy mk =
     \<lparr> seed_rngs = (\<lambda>w sd. w),
       set_env_seed = (\<lambda>e sd. e),
       gym_make = (\<lambda>name. (0, 0)),
       sim_step = (\<lambda>e action.
          ((fst e + sum_list action, Suc (snd e)), [fst e + sum_list action],
           fst e + sum_list action, Suc (snd e) = 4, False, snd e)),
       sim_reset = (\<lambda>e. ((0, 0), [0], 0)),
       sim_close = (\<lambda>e. e),
       normalized_action = (\<lambda>action. action),
       DDPG = (\<lambda>w. w),
       agent_train = (\<lambda>w. w),
       select_action = (\<lambda>w st a_noise p_noise mdp_type.
          (w\<lparr>w_selected := w_selected w @ [(a_noise, p_noise, mdp_type)]\<rparr>,
           map (\<lambda>x. (if a_noise = None then 0 else 1) + (if mdp_type = Some Mdp then 0 else 2)) st,
           map (\<lambda>x. 0) st,
           map (\<lambda>x. 2) st)),
       unpack3 = (\<lambda>r. r),
       as_tensor = (\<lambda>r. fst r),
       store_transition = (\<lambda>w transition. w\<lparr>w_memory := w_memory w @ [transition]\<rparr>),
       memory_len = (\<lambda>w. int (length (w_memory w))),
       memory_sample = (\<lambda>w n. (w, take (nat n) (w_memory w))),
       update_parameters = (\<lambda>w b m adv em. (w, 0, 0, 0)),
       perturb_actor_parameters = (\<lambda>w. w),
       noise_reset = (\<lambda>w. w),
       adapt = (\<lambda>w d. w\<lparr>w_adapted := w_adapted w @ [d]\<rparr>),
       base_dir_of = (\<lambda>a. ''models''),
       dataset_dir = ''datasets'',
       dataset_file = (\<lambda>a. ''datasets/raw.json''),
       os_makedirs = (\<lambda>w d. (w, mk)),
       os_path_exists = (\<lambda>w d. True),
       save_model = (\<lambda>w d. w),
       pickle_dump = (\<lambda>w d r. w),
       vis_plot = (\<lambda>w r. w),
       json_dump = (\<lambda>w d store. w) \<rparr>"

text \<open>
  The variables of the script before an update phase of this instance, with the given
  transitions in the replay memory and nothing else recorded.
\<close>

definition toy_noisy_vars :: "transition list \<Rightarrow> (toy_world, real \<times> nat, nat) vars" where
  "toy_noisy_vars memory =
     \<lparr>world = toy_world0\<lparr>w_memory := memory\<rparr>,
      heap = toy_noisy_heap,
      env = NormalizedActions (Gym 0),
      eval_env = NormalizedActions (NormalizedActions (Gym 0)),
      state = [0],
      eval_state = [0],
      eval_reward = 0,
      episode_reward = 0,
      total_steps = int (length memory),
      train_steps = 0,
      ep = 0,
      hacky_indict = None,
      hacky_store = (\<lambda>e. []),
      results_dict =
        \<lparr>eval_rewards = [], res_value_losses = [], res_policy_losses = [],
         res_adversary_losses = [], train_rewards = []\<rparr>,
      value_losses = [],
      policy_losses = [],
      adversary_losses = [],
      trace = [],
      rollout_log = []\<rparr>"

text \<open>The exception in which a run ended, if it ended in one.\<close>

definition raised :: "error + 's \<Rightarrow> error option" where
  "raised r = (case r of Inl e \<Rightarrow> Some e | Inr s \<Rightarrow> None)"

subsection \<open>The distance of the adaptation\<close>

text \<open>
  The distance as the specification words it: the root-mean-square difference between
  the actions of the perturbed policy and the actions of the unperturbed policy on one
  batch of states. The perturbed policy is \<open>select_action\<close> with the parameter noise and
  nothing else, the unperturbed policy is \<open>select_action\<close> with no noise at all.
\<close>

definition claimed_distance :: "('w, 'e, 'r, 'i) collab \<Rightarrow> 'w \<Rightarrow> tensor \<Rightarrow> pyfloat" where
  "claimed_distance c w states =
     ddpg_distance_metric
       (as_tensor c (snd (select_action c w states None (Some AdaptiveParamNoiseSpec) (Some Mdp))))
       (as_tensor c (snd (select_action c w states None None (Some Mdp))))"

text \<open>
  The world in which an adaptation in state \<open>s\<close> is to leave the agent: a batch has been
  sampled, the unperturbed policy has been asked for its actions on the states of the
  batch, and \<open>adapt\<close> has received the distance between the actions stored in the batch and
  those unperturbed actions.
\<close>

definition adapted_world :: "('w, 'e, 'r, 'i) collab \<Rightarrow> args \<Rightarrow> ('w, 'e, 'i) vars \<Rightarrow> 'w" where
  "adapted_world c a s =
     (let sampled = memory_sample c (world s) (batch_size a);
          batch = snd sampled;
          states = stack (map fst batch);
          selected = select_action c (fst sampled) states None None (Some Mdp);
          unperturbed = as_tensor c (snd selected);
          stored = stack (map (\<lambda>transition. fst (snd transition)) batch)
      in adapt c (fst selected) (ddpg_distance_metric stored unperturbed))"

text \<open>
  The transition that a step of the training rollout from state \<open>s\<close> is to put into the
  replay memory: its action is the one that \<open>select_action\<close> returns for the current
  state with the action noise, the parameter noise and the exploration method of the run,
  and the one that the training environment is stepped with.
\<close>

definition executed_transition ::
  "('w, 'e, 'r, 'i) collab \<Rightarrow> args \<Rightarrow> ('w, 'e, 'i) vars \<Rightarrow> transition" where
  "executed_transition c a s =
     (let selected = select_action c (world s) (state s) (ounoise a) (param_noise_object a)
                       (exploration_method a);
          (action, pr_mu, adv_mu) = unpack3 c (snd selected);
          (h1, next_state, reward, done, trunc, info) = env_step c (heap s) (env s) action
      in (state s, action, [if done then 0 else 1], next_state, [reward]))"

text \<open>The world once that transition has been stored.\<close>

definition stored_world ::
  "('w, 'e, 'r, 'i) collab \<Rightarrow> args \<Rightarrow> ('w, 'e, 'i) vars \<Rightarrow> 'w" where
  "stored_world c a s =
     store_transition c
       (fst (select_action c (world s) (state s) (ounoise a) (param_noise_object a)
               (exploration_method a)))
       (executed_transition c a s)"

section \<open>Properties\<close>

subsection \<open>Evaluation and loops\<close>

text \<open>
  For evaluating the script on concrete collaborators: the square roots of 0 and 1 are
  computed, any other is left as it is.
\<close>

lemma sqrt_code [code]: "sqrt x = (if x = 0 then 0 else if x = 1 then 1 else sqrt x)"
  by simp

lemma funpow_invariant:
  assumes "\<And>s. I s \<Longrightarrow> I (f s)" and "I s"
  shows "I ((f ^^ n) s)"
  using assms by (induction n) auto

lemma repeat_invariant:
  assumes step: "\<And>s s'. I s \<Longrightarrow> body s = Inr s' \<Longrightarrow> I s'"
    and "I s" and "repeat n body s = Inr s'"
  shows "I s'"
  using assms(2,3)
proof (induction n arbitrary: s)
  case 0
  then show ?case by simp
next
  case (Suc n)
  then show ?case by (auto split: sum.splits dest: step)
qed

text \<open>
  A property that every step of the three phases, the bookkeeping of the losses and the
  checkpoint preserve holds after a cycle, an epoch and the whole training.
\<close>

lemma cycle_invariant:
  assumes rollout: "\<And>s. I s \<Longrightarrow> I (rollout_step c a s)"
    and update: "\<And>s s'. I s \<Longrightarrow> update_step c a s = Inr s' \<Longrightarrow> I s'"
    and losses: "\<And>s. I s \<Longrightarrow> I (record_losses s)"
    and eval: "\<And>s. I s \<Longrightarrow> I (eval_step c s)"
    and ckpt: "\<And>s. I s \<Longrightarrow> I (checkpoint c b s)"
    and start: "I s" and run: "cycle c a b s = Inr s'"
  shows "I s'"
proof -
  have r: "I (rollout_phase c a s)"
    unfolding rollout_phase_def using rollout start by (rule funpow_invariant)
  from run obtain s1 where u: "update_phase c a (rollout_phase c a s) = Inr s1"
    and s': "s' = checkpoint c b (eval_phase c a s1)"
    by (auto simp: cycle_def split: sum.splits)
  have "I s1"
  proof (cases "memory_len c (world (rollout_phase c a s)) > batch_size a")
    case True
    with u obtain s2 where
      rep: "repeat (nat (number_of_train_steps a)) (update_step c a) (rollout_phase c a s) = Inr s2"
      and s1: "s1 = record_losses s2"
      by (auto simp: update_phase_def split: sum.splits)
    have "I s2" using update r rep by (rule repeat_invariant)
    then show ?thesis unfolding s1 by (rule losses)
  next
    case False
    with u r show ?thesis by (simp add: update_phase_def)
  qed
  then have "I (eval_phase c a s1)"
    unfolding eval_phase_def using eval by (rule funpow_invariant[rotated])
  then show ?thesis unfolding s' by (rule ckpt)
qed

lemma train_invariant:
  assumes rollout: "\<And>s. I s \<Longrightarrow> I (rollout_step c a s)"
    and update: "\<And>s s'. I s \<Longrightarrow> update_step c a s = Inr s' \<Longrightarrow> I s'"
    and losses: "\<And>s. I s \<Longrightarrow> I (record_losses s)"
    and eval: "\<And>s. I s \<Longrightarrow> I (eval_step c s)"
    and ckpt: "\<And>s. I s \<Longrightarrow> I (checkpoint c b s)"
    and start: "I s" and run: "train c a b n s = Inr s'"
  shows "I s'"
proof -
  have cyc: "\<And>s s'. I s \<Longrightarrow> cycle c a b s = Inr s' \<Longrightarrow> I s'"
    using rollout update losses eval ckpt by (rule cycle_invariant)
  have ep: "\<And>s s'. I s \<Longrightarrow> epoch c a b s = Inr s' \<Longrightarrow> I s'"
    unfolding epoch_def using cyc by (rule repeat_invariant)
  show ?thesis using ep start run unfolding train_def by (rule repeat_invariant)
qed

text \<open>A run of the script that ends without an exception, taken apart.\<close>

lemma main_Inr:
  assumes "main c w0 h0 u = Inr s"
  obtains a n s0 s1 where "configure (parse_args u) = Inr a"
    and "initial c w0 h0 a = Inr (n, s0)"
    and "train c (a\<lparr>ratio := ratio a + 1\<rparr>) (base_dir_of c a) n s0 = Inr s1"
    and "export_dataset c (a\<lparr>ratio := ratio a + 1\<rparr>) s1 = Inr s"
  using assms by (auto simp: main_def Let_def split: sum.splits prod.splits)

subsection \<open>The calls of the three phases\<close>

lemma adversary_flags_append [simp]:
  "adversary_flags (xs @ ys) = adversary_flags xs @ adversary_flags ys"
  by (simp add: adversary_flags_def)

lemma adversary_flags_rollout_step [simp]:
  "adversary_flags (trace (rollout_step c a s)) = adversary_flags (trace s)"
  by (simp add: rollout_step_def reset_noise_def Let_def adversary_flags_def split: prod.splits)

lemma adversary_flags_eval_step [simp]:
  "adversary_flags (trace (eval_step c s)) = adversary_flags (trace s)"
  by (simp add: eval_step_def Let_def adversary_flags_def split: prod.splits)

lemma train_steps_rollout_step [simp]: "train_steps (rollout_step c a s) = train_steps s"
  by (simp add: rollout_step_def reset_noise_def Let_def split: prod.splits)

lemma train_steps_eval_step [simp]: "train_steps (eval_step c s) = train_steps s"
  by (simp add: eval_step_def Let_def split: prod.splits)

lemma adversary_flags_checkpoint [simp]:
  "adversary_flags (trace (checkpoint c b s)) = adversary_flags (trace s)"
  by (simp add: checkpoint_def Let_def adversary_flags_def)

lemma adversary_flags_update_step:
  assumes "update_step c a s = Inr s'"
  shows "adversary_flags (trace s') = adversary_flags (trace s) @
           [if flip_ratio a then train_steps s mod ratio a \<noteq> 0 else train_steps s mod ratio a = 0]"
    and "train_steps s' = train_steps s + 1"
  using assms
  by (auto simp: update_step_def adapt_param_noise_def py_mod_def adversary_update_def Let_def
        adversary_flags_def split: if_splits prod.splits sum.splits)

lemma adversary_flags_initial:
  assumes "initial c w0 h0 a = Inr (n, s0)"
  shows "adversary_flags (trace s0) = []" and "train_steps s0 = 0"
  using assms
  by (auto simp: initial_def reset_noise_def Let_def adversary_flags_def
        split: if_splits prod.splits sum.splits)

lemma adversary_flags_export:
  assumes "export_dataset c a s = Inr s'"
  shows "adversary_flags (trace s') = adversary_flags (trace s)"
    and "train_steps s' = train_steps s"
  using assms
  by (auto simp: export_dataset_def Let_def adversary_flags_def
        split: if_splits prod.splits sum.splits option.splits)

subsection \<open>C1: the schedule of the adversary updates\<close>

text \<open>
  C1. In a run of the script, \<open>train_steps\<close> counts the calls of \<open>update_parameters\<close>, and
  the call made when \<open>train_steps\<close> is \<open>k\<close> receives \<open>adversary_update = True\<close> exactly when
  \<open>k mod (ratio + 1) = 0\<close> if \<open>flip_ratio\<close> is off, and exactly when \<open>k mod (ratio + 1) \<noteq> 0\<close>
  if it is on. Here \<open>ratio\<close> is the configured value, before line 184 adds one to it. Each
  call receives one boolean, so it selects one of the two players.
\<close>

theorem C1_adversary_update_schedule:
  assumes "configure (parse_args u) = Inr a"
    and "main (c :: ('w, 'e, 'r, 'i) collab) w0 h0 u = Inr s"
  shows "adversary_flags (trace s) =
           map (\<lambda>k. if flip_ratio a then int k mod (ratio a + 1) \<noteq> 0
                     else int k mod (ratio a + 1) = 0)
             [0..<nat (train_steps s)]"
proof -
  define a1 where "a1 = a\<lparr>ratio := ratio a + 1\<rparr>"
  define F where "F = (\<lambda>k. if flip_ratio a then int k mod (ratio a + 1) \<noteq> 0
                            else int k mod (ratio a + 1) = 0)"
  define I :: "('w, 'e, 'i) vars \<Rightarrow> bool" where
    "I = (\<lambda>s. 0 \<le> train_steps s \<and> adversary_flags (trace s) = map F [0..<nat (train_steps s)])"
  from assms obtain n s0 s1 where init: "initial c w0 h0 a = Inr (n, s0)"
    and tr: "train c a1 (base_dir_of c a) n s0 = Inr s1"
    and ex: "export_dataset c a1 s1 = Inr s"
    unfolding a1_def by (auto elim!: main_Inr)
  have start: "I s0" using adversary_flags_initial[OF init] by (simp add: I_def)
  have upd: "I t'" if "I t" and "update_step c a1 t = Inr t'" for t t'
  proof -
    from that(1) have nonneg: "0 \<le> train_steps t"
      and fl: "adversary_flags (trace t) = map F [0..<nat (train_steps t)]"
      by (simp_all add: I_def)
    have ts: "train_steps t' = train_steps t + 1"
      by (rule adversary_flags_update_step(2)[OF that(2)])
    have n: "nat (train_steps t') = Suc (nat (train_steps t))"
      using nonneg ts by linarith
    have "(if flip_ratio a1 then train_steps t mod ratio a1 \<noteq> 0
           else train_steps t mod ratio a1 = 0) = F (nat (train_steps t))"
      using nonneg by (simp add: F_def a1_def)
    then have "adversary_flags (trace t') = map F [0..<nat (train_steps t)] @ [F (nat (train_steps t))]"
      using adversary_flags_update_step(1)[OF that(2)] fl by simp
    then have "adversary_flags (trace t') = map F [0..<nat (train_steps t')]"
      unfolding n by simp
    moreover have "0 \<le> train_steps t'" using nonneg ts by linarith
    ultimately show ?thesis unfolding I_def by blast
  qed
  have "I s1"
  proof (rule train_invariant[where I = I, OF _ _ _ _ _ start tr])
    show "I (rollout_step c a1 t)" if "I t" for t
      using that by (simp add: I_def)
    show "I t'" if "I t" and "update_step c a1 t = Inr t'" for t t'
      using that by (rule upd)
    show "I (record_losses t)" if "I t" for t
      using that by (simp add: I_def record_losses_def)
    show "I (eval_step c t)" if "I t" for t
      using that by (simp add: I_def)
    show "I (checkpoint c (base_dir_of c a) t)" if "I t" for t
      using that by (simp add: I_def checkpoint_def Let_def adversary_flags_def)
  qed
  then show ?thesis using adversary_flags_export[OF ex] by (simp add: I_def F_def)
qed

theorem C1_adversary_update_schedule_witness:
  "outcome (adversary_flags \<circ> trace) (main (toy None) 0 toy_heap (toy_cli 2 1 2 1 3))
     = Some [True, False, True]"
proof -
  have "case configure (parse_args (toy_cli 2 1 2 1 3)) of
          Inl e \<Rightarrow> False | Inr a \<Rightarrow> ratio a = 1 \<and> \<not> flip_ratio a"
    by code_simp
  then obtain a where cfg: "configure (parse_args (toy_cli 2 1 2 1 3)) = Inr a"
    and a: "ratio a = 1" "\<not> flip_ratio a"
    by (auto split: sum.splits)
  have "case main (toy None) 0 toy_heap (toy_cli 2 1 2 1 3) of
          Inl e \<Rightarrow> False | Inr s \<Rightarrow> train_steps s = 3"
    by code_simp
  then obtain s where run: "main (toy None) 0 toy_heap (toy_cli 2 1 2 1 3) = Inr s"
    and s: "train_steps s = 3"
    by (auto split: sum.splits)
  have "[0..<nat 3] = [0, 1, 2]" by (simp add: upt_rec numeral_eq_Suc)
  then show ?thesis
    using C1_adversary_update_schedule[OF cfg run] a s run by (simp add: outcome_def)
qed

subsection \<open>C2: the ratio of the configuration\<close>

text \<open>
  C2. With \<open>--method nr_mdp --ratio 5\<close> on the command line the parser stores 5 in
  \<open>args.ratio\<close>, and line 92 then replaces it by 1, the value derived from the method: the
  ratio the user supplied is not the one the run uses.
\<close>

theorem C2_user_ratio_overwritten:
  "ratio (parse_args (no_options\<lparr>cli_method := Some Nr_mdp, cli_ratio := Some 5\<rparr>)) = 5
   \<and> outcome ratio
         (configure (parse_args (no_options\<lparr>cli_method := Some Nr_mdp, cli_ratio := Some 5\<rparr>)))
       = Some 1"
  by code_simp

subsection \<open>The calls that a step adds\<close>

lemma update_losses_append [simp]:
  "update_losses (xs @ ys) = update_losses xs @ update_losses ys"
  by (simp add: update_losses_def)

lemma noise_schedule_append [simp]:
  "noise_schedule (xs @ ys) = noise_schedule xs @ noise_schedule ys"
  by (simp add: noise_schedule_def)

lemma selections_append [simp]:
  "selections (xs @ ys) = selections xs @ selections ys"
  by (simp add: selections_def)

lemma json_dumps_append [simp]:
  "json_dumps (xs @ ys) = json_dumps xs @ json_dumps ys"
  by (simp add: json_dumps_def)

lemma calls_since_append [simp]: "trace s' = trace s @ evs \<Longrightarrow> calls_since s s' = evs"
  by (simp add: calls_since_def)

lemma rollout_step_calls:
  "\<exists>evs. trace (rollout_step c a s) = trace s @ evs \<and> adversary_flags evs = []
     \<and> update_losses evs = [] \<and> noise_schedule evs = [] \<and> json_dumps evs = []"
  by (simp add: rollout_step_def reset_noise_def Let_def adversary_flags_def update_losses_def
        noise_schedule_def json_dumps_def split: prod.splits)

lemma eval_step_calls:
  "\<exists>evs. trace (eval_step c s) = trace s @ evs \<and> adversary_flags evs = []
     \<and> update_losses evs = [] \<and> noise_schedule evs = [] \<and> json_dumps evs = []
     \<and> selections evs = [(None, None, Some Mdp)]"
  by (simp add: eval_step_def Let_def adversary_flags_def update_losses_def
        noise_schedule_def json_dumps_def selections_def split: prod.splits)

lemma checkpoint_calls:
  "\<exists>evs. trace (checkpoint c b s) = trace s @ evs \<and> adversary_flags evs = []
     \<and> update_losses evs = [] \<and> noise_schedule evs = [] \<and> json_dumps evs = []
     \<and> selections evs = []"
  by (simp add: checkpoint_def Let_def adversary_flags_def update_losses_def
        noise_schedule_def json_dumps_def selections_def)

lemma projections_Nil [simp]:
  "adversary_flags [] = []" "update_losses [] = []" "noise_schedule [] = []"
  "json_dumps [] = []" "selections [] = []"
  by (simp_all add: adversary_flags_def update_losses_def noise_schedule_def json_dumps_def
        selections_def)




subsection \<open>C7: the evaluation signal\<close>

text \<open>
  C7. An evaluation step asks \<open>select_action\<close> for the action on \<open>eval_state\<close> with no
  action noise, no parameter noise and \<open>mdp_type = 'mdp'\<close>, whatever the arguments of the
  run, and leaves the agent as that call left it. The evaluation signal is nevertheless
  not that of the policy alone. On the instance that records what the agent receives, two
  runs of one cycle that differ in \<open>--method\<close> only make the same evaluation calls, after
  rollout calls that carry the action noise and the method of the run, and report
  different evaluation rewards: 4 with \<open>mdp\<close>, where the rollout added the action noise,
  and 12 with \<open>nr_mdp\<close>, where it added the adversary's share as well. Evaluation steps the
  simulator that the training rollout has moved (line 98); on the simulator as the set-up
  leaves it, the same policy earns 0 in an evaluation phase and ends its episode with 0.
\<close>

theorem C7_evaluation_signal_follows_training:
  "world (eval_step c s) = fst (select_action c (world s) (eval_state s) None None (Some Mdp))
   \<and> outcome (\<lambda>s. (w_selected (world s), eval_rewards (results_dict s)))
         (main (toy_noisy None) toy_world0 toy_noisy_heap
            ((toy_cli 2 1 2 1 0)\<lparr>cli_seed := Some 0, cli_method := Some Mdp\<rparr>))
       = Some ([(Some OrnsteinUhlenbeckActionNoise, None, Some Mdp),
                (Some OrnsteinUhlenbeckActionNoise, None, Some Mdp),
                (None, None, Some Mdp), (None, None, Some Mdp)],
               [(2, 4)])
   \<and> outcome (\<lambda>s. (w_selected (world s), eval_rewards (results_dict s)))
         (main (toy_noisy None) toy_world0 toy_noisy_heap
            ((toy_cli 2 1 2 1 0)\<lparr>cli_seed := Some 0, cli_method := Some Nr_mdp\<rparr>))
       = Some ([(Some OrnsteinUhlenbeckActionNoise, None, Some Nr_mdp),
                (Some OrnsteinUhlenbeckActionNoise, None, Some Nr_mdp),
                (None, None, Some Mdp), (None, None, Some Mdp)],
               [(2, 12)])
   \<and> (case configure (parse_args ((toy_cli 2 1 2 1 0)\<lparr>cli_seed := Some 0,
               cli_method := Some Nr_mdp\<rparr>)) of
         Inl e \<Rightarrow> False
       | Inr a \<Rightarrow>
           (case initial (toy_noisy None) toy_world0 toy_noisy_heap a of
              Inl e \<Rightarrow> False
            | Inr (n, s0) \<Rightarrow>
                eval_reward (eval_phase (toy_noisy None) a s0) = 0
                \<and> eval_rewards (results_dict (eval_phase (toy_noisy None) a
                     (eval_phase (toy_noisy None) a s0))) = [(0, 0)]))"
proof (intro conjI)
  show "world (eval_step c s) = fst (select_action c (world s) (eval_state s) None None (Some Mdp))"
    by (simp add: eval_step_def Let_def split: prod.splits)
qed code_simp+

subsection \<open>C5: creating the checkpoint directory\<close>

text \<open>
  C5. Lines 142-145 raise nothing, whatever \<open>os.makedirs(base_dir)\<close> does, and the script
  goes on in the world that the call left. On the small instance with 0 steps, hence with
  no epoch and no checkpoint to write: when \<open>os.makedirs\<close> raises \<open>PermissionError\<close> the
  run ends without an exception, after the set-up, the export of the dataset and the
  closing of the environment, exactly as it does when \<open>os.makedirs\<close> raises
  \<open>FileExistsError\<close>. Lines 281-283, which create the directory of the datasets, let the
  same \<open>PermissionError\<close> end the run.
\<close>

theorem C5_makedirs_failure_swallowed:
  "try_makedirs c w base_dir = Inr (fst (os_makedirs c w base_dir))
   \<and> snd (os_makedirs (toy (Some PermissionError)) 0
            (base_dir_of (toy (Some PermissionError))
               (parse_args ((toy_cli 0 1 2 1 3)\<lparr>cli_seed := Some 0\<rparr>))))
       = Some PermissionError
   \<and> raised (main (toy (Some PermissionError)) 0 toy_heap ((toy_cli 0 1 2 1 3)\<lparr>cli_seed := Some 0\<rparr>))
       = None
   \<and> outcome trace
         (main (toy (Some PermissionError)) 0 toy_heap ((toy_cli 0 1 2 1 3)\<lparr>cli_seed := Some 0\<rparr>))
       = Some [Call_makedirs ''models'', Call_env_reset (NormalizedActions (Gym 0)),
               Call_env_reset (NormalizedActions (NormalizedActions (Gym 0))),
               Call_noise_reset, Call_json_dump ''datasets/raw.json'',
               Call_close (NormalizedActions (Gym 0))]
   \<and> raised (main (toy (Some FileExistsError)) 0 toy_heap ((toy_cli 0 1 2 1 3)\<lparr>cli_seed := Some 0\<rparr>))
       = None
   \<and> raised (export_dataset ((toy (Some PermissionError))\<lparr>os_path_exists := (\<lambda>w d. False)\<rparr>)
         (parse_args ((toy_cli 0 1 2 1 3)\<lparr>cli_seed := Some 0\<rparr>)) (toy_vars 0))
       = Some (OSError PermissionError)"
proof (intro conjI)
  show "try_makedirs c w base_dir = Inr (fst (os_makedirs c w base_dir))"
    by (simp add: try_makedirs_def split: prod.splits option.splits)
qed code_simp+

subsection \<open>The update steps\<close>

lemma update_step_total:
  assumes "param_noise_interval a \<noteq> 0" and "ratio a \<noteq> 0"
  shows "\<exists>s'. update_step c a s = Inr s'"
  using assms
  by (simp add: update_step_def py_mod_def adversary_update_def Let_def split: prod.splits)

lemma repeat_total:
  assumes "\<And>s. \<exists>s'. body s = Inr s'"
  shows "\<exists>s'. repeat n body s = Inr s'"
proof (induction n arbitrary: s)
  case 0
  then show ?case by simp
next
  case (Suc n)
  obtain s1 where "body s = Inr s1" using assms by blast
  then show ?case using Suc[of s1] by simp
qed

lemma update_step_calls:
  assumes "update_step c a s = Inr s'"
  shows "\<exists>evs vl pl al. trace s' = trace s @ evs
     \<and> adversary_flags evs =
         [if flip_ratio a then train_steps s mod ratio a \<noteq> 0 else train_steps s mod ratio a = 0]
     \<and> update_losses evs = [(vl, pl, al)]
     \<and> noise_schedule evs =
         (if param_noise a \<and> train_steps s mod param_noise_interval a = 0
          then [True, False] else [False])
     \<and> json_dumps evs = []
     \<and> value_losses s' = value_losses s @ [vl]
     \<and> policy_losses s' = policy_losses s @ [pl]
     \<and> adversary_losses s' = adversary_losses s @ [al]"
  using assms
  by (auto simp: update_step_def adapt_param_noise_def py_mod_def adversary_update_def Let_def
        adversary_flags_def update_losses_def noise_schedule_def json_dumps_def
        split: if_splits prod.splits sum.splits)

lemma update_step_frame:
  assumes "update_step c a s = Inr s'"
  shows "train_steps s' = train_steps s + 1" and "results_dict s' = results_dict s"
    and "total_steps s' = total_steps s"
  using assms
  by (auto simp: update_step_def adapt_param_noise_def py_mod_def adversary_update_def Let_def
        split: if_splits prod.splits sum.splits)

lemma update_steps_calls:
  assumes "repeat n (update_step c a) s = Inr s'"
  shows "\<exists>evs. trace s' = trace s @ evs
     \<and> length (adversary_flags evs) = n
     \<and> json_dumps evs = []
     \<and> value_losses s' = value_losses s @ map fst (update_losses evs)
     \<and> policy_losses s' = policy_losses s @ map (fst \<circ> snd) (update_losses evs)
     \<and> adversary_losses s' = adversary_losses s @ map (snd \<circ> snd) (update_losses evs)
     \<and> train_steps s' = train_steps s + int n
     \<and> results_dict s' = results_dict s
     \<and> total_steps s' = total_steps s"
  using assms
proof (induction n arbitrary: s)
  case 0
  then show ?case by simp
next
  case (Suc n)
  then obtain s1 where first: "update_step c a s = Inr s1"
    and rest: "repeat n (update_step c a) s1 = Inr s'"
    by (auto split: sum.splits)
  from update_step_calls[OF first] obtain evs1 vl pl al where one:
    "trace s1 = trace s @ evs1" "length (adversary_flags evs1) = 1"
    "update_losses evs1 = [(vl, pl, al)]" "json_dumps evs1 = []"
    "value_losses s1 = value_losses s @ [vl]" "policy_losses s1 = policy_losses s @ [pl]"
    "adversary_losses s1 = adversary_losses s @ [al]"
    by auto
  from Suc.IH[OF rest] obtain evs where more:
    "trace s' = trace s1 @ evs" "length (adversary_flags evs) = n" "json_dumps evs = []"
    "value_losses s' = value_losses s1 @ map fst (update_losses evs)"
    "policy_losses s' = policy_losses s1 @ map (fst \<circ> snd) (update_losses evs)"
    "adversary_losses s' = adversary_losses s1 @ map (snd \<circ> snd) (update_losses evs)"
    "train_steps s' = train_steps s1 + int n" "results_dict s' = results_dict s1"
    "total_steps s' = total_steps s1"
    by blast
  show ?case
    using one more update_step_frame[OF first]
    by (intro exI[of _ "evs1 @ evs"]) simp
qed

lemma record_losses_frame [simp]:
  "trace (record_losses s) = trace s" "train_steps (record_losses s) = train_steps s"
  "total_steps (record_losses s) = total_steps s"
  by (simp_all add: record_losses_def)

subsection \<open>C4: the guard of the update phase\<close>

text \<open>
  C4, as the claim states it, fails: a replay memory that holds exactly \<open>batch_size\<close>
  transitions, here 2 of them with three update steps configured, holds a whole batch, and
  yet the update phase leaves every variable as it was.
\<close>

theorem C4_full_batch_skipped:
  "memory_len (toy None) (world (toy_vars 2)) = 2
   \<and> batch_size (parse_args (toy_cli 2 1 2 2 3)) = 2
   \<and> number_of_train_steps (parse_args (toy_cli 2 1 2 2 3)) = 3
   \<and> update_phase (toy None) (parse_args (toy_cli 2 1 2 2 3)) (toy_vars 2) = Inr (toy_vars 2)"
proof -
  have "memory_len (toy None) (world (toy_vars 2)) = 2
     \<and> batch_size (parse_args (toy_cli 2 1 2 2 3)) = 2
     \<and> number_of_train_steps (parse_args (toy_cli 2 1 2 2 3)) = 3"
    by code_simp
  then show ?thesis by (simp add: update_phase_def)
qed

text \<open>
  C4, amended. The update phase is skipped, a no-op and not an error, exactly when the
  replay memory holds at most \<open>batch_size\<close> transitions (line 225 compares with \<open>>\<close>).
  When it holds more than \<open>batch_size\<close> transitions, and neither \<open>param_noise_interval\<close>
  nor the ratio is 0, the phase ends without an exception, changes the variables, and
  makes \<open>number_of_train_steps\<close> calls of \<open>update_parameters\<close> (none when that number is
  negative).
\<close>

theorem C4_update_phase_guard:
  "(memory_len c (world s) \<le> batch_size a \<longrightarrow> update_phase c a s = Inr s)
   \<and> (batch_size a < memory_len c (world s) \<and> param_noise_interval a \<noteq> 0 \<and> ratio a \<noteq> 0 \<longrightarrow>
        (\<exists>s'. update_phase c a s = Inr s' \<and> s' \<noteq> s
            \<and> length (adversary_flags (calls_since s s')) = nat (number_of_train_steps a)
            \<and> train_steps s' = train_steps s + int (nat (number_of_train_steps a))))"
proof (intro conjI impI)
  assume "memory_len c (world s) \<le> batch_size a"
  then show "update_phase c a s = Inr s" by (simp add: update_phase_def)
next
  assume h: "batch_size a < memory_len c (world s) \<and> param_noise_interval a \<noteq> 0 \<and> ratio a \<noteq> 0"
  then have "\<And>t. \<exists>t'. update_step c a t = Inr t'" by (simp add: update_step_total)
  then obtain s1 where rep: "repeat (nat (number_of_train_steps a)) (update_step c a) s = Inr s1"
    using repeat_total[of "update_step c a"] by blast
  from update_steps_calls[OF rep] obtain evs where evs: "trace s1 = trace s @ evs"
    "length (adversary_flags evs) = nat (number_of_train_steps a)"
    "train_steps s1 = train_steps s + int (nat (number_of_train_steps a))"
    "results_dict s1 = results_dict s"
    by blast
  have run: "update_phase c a s = Inr (record_losses s1)"
    using h rep by (simp add: update_phase_def)
  have "res_value_losses (results_dict (record_losses s1)) \<noteq> res_value_losses (results_dict s)"
    using evs(4) by (simp add: record_losses_def)
  then have "record_losses s1 \<noteq> s" by auto
  moreover have "calls_since s (record_losses s1) = evs" using evs(1) by simp
  ultimately show "\<exists>s'. update_phase c a s = Inr s' \<and> s' \<noteq> s
            \<and> length (adversary_flags (calls_since s s')) = nat (number_of_train_steps a)
            \<and> train_steps s' = train_steps s + int (nat (number_of_train_steps a))"
    using run evs(2,3) by (intro exI[of _ "record_losses s1"]) simp
qed

theorem C4_update_phase_guard_witness:
  "update_phase (toy None) (parse_args (toy_cli 2 1 2 2 3)) (toy_vars 2) = Inr (toy_vars 2)
   \<and> (\<exists>s'. update_phase (toy None) (parse_args (toy_cli 2 1 2 2 3)) (toy_vars 3) = Inr s'
         \<and> s' \<noteq> toy_vars 3
         \<and> length (adversary_flags (calls_since (toy_vars 3) s')) = 3
         \<and> train_steps s' = 3)"
proof -
  have small: "memory_len (toy None) (world (toy_vars 2)) \<le> batch_size (parse_args (toy_cli 2 1 2 2 3))"
    by code_simp
  have large: "batch_size (parse_args (toy_cli 2 1 2 2 3)) < memory_len (toy None) (world (toy_vars 3))
     \<and> param_noise_interval (parse_args (toy_cli 2 1 2 2 3)) \<noteq> 0
     \<and> ratio (parse_args (toy_cli 2 1 2 2 3)) \<noteq> 0"
    by code_simp
  have n: "nat (number_of_train_steps (parse_args (toy_cli 2 1 2 2 3))) = 3"
    and t: "train_steps (toy_vars 3) = 0"
    by code_simp+
  show ?thesis
    using C4_update_phase_guard[of "toy None" "toy_vars 2" "parse_args (toy_cli 2 1 2 2 3)"]
      C4_update_phase_guard[of "toy None" "toy_vars 3" "parse_args (toy_cli 2 1 2 2 3)"]
      small large n t
    by simp
qed

subsection \<open>What the rollout, the evaluation and the checkpoint leave alone\<close>

lemma funpow_frame:
  assumes "\<And>t. g (f t) = g t"
  shows "g ((f ^^ n) s) = g s"
  by (induction n) (simp_all add: assms)

lemma rollout_step_losses:
  "value_losses (rollout_step c a s) = value_losses s"
  "policy_losses (rollout_step c a s) = policy_losses s"
  "adversary_losses (rollout_step c a s) = adversary_losses s"
  "res_value_losses (results_dict (rollout_step c a s)) = res_value_losses (results_dict s)"
  "res_policy_losses (results_dict (rollout_step c a s)) = res_policy_losses (results_dict s)"
  "res_adversary_losses (results_dict (rollout_step c a s)) = res_adversary_losses (results_dict s)"
  by (simp_all add: rollout_step_def reset_noise_def Let_def split: prod.splits)

lemma rollout_phase_losses:
  "value_losses (rollout_phase c a s) = value_losses s"
  "policy_losses (rollout_phase c a s) = policy_losses s"
  "adversary_losses (rollout_phase c a s) = adversary_losses s"
  "res_value_losses (results_dict (rollout_phase c a s)) = res_value_losses (results_dict s)"
  "res_policy_losses (results_dict (rollout_phase c a s)) = res_policy_losses (results_dict s)"
  "res_adversary_losses (results_dict (rollout_phase c a s)) = res_adversary_losses (results_dict s)"
  unfolding rollout_phase_def
  by (rule funpow_frame[where g = value_losses] funpow_frame[where g = policy_losses]
        funpow_frame[where g = adversary_losses]
        funpow_frame[where g = "\<lambda>t. res_value_losses (results_dict t)"]
        funpow_frame[where g = "\<lambda>t. res_policy_losses (results_dict t)"]
        funpow_frame[where g = "\<lambda>t. res_adversary_losses (results_dict t)"],
      rule rollout_step_losses)+

lemma eval_step_losses:
  "value_losses (eval_step c s) = value_losses s"
  "policy_losses (eval_step c s) = policy_losses s"
  "adversary_losses (eval_step c s) = adversary_losses s"
  "res_value_losses (results_dict (eval_step c s)) = res_value_losses (results_dict s)"
  "res_policy_losses (results_dict (eval_step c s)) = res_policy_losses (results_dict s)"
  "res_adversary_losses (results_dict (eval_step c s)) = res_adversary_losses (results_dict s)"
  "total_steps (eval_step c s) = total_steps s"
  by (simp_all add: eval_step_def Let_def split: prod.splits)

lemma eval_phase_losses:
  "value_losses (eval_phase c a s) = value_losses s"
  "policy_losses (eval_phase c a s) = policy_losses s"
  "adversary_losses (eval_phase c a s) = adversary_losses s"
  "res_value_losses (results_dict (eval_phase c a s)) = res_value_losses (results_dict s)"
  "res_policy_losses (results_dict (eval_phase c a s)) = res_policy_losses (results_dict s)"
  "res_adversary_losses (results_dict (eval_phase c a s)) = res_adversary_losses (results_dict s)"
  "total_steps (eval_phase c a s) = total_steps s"
  unfolding eval_phase_def
  by (rule funpow_frame[where g = value_losses] funpow_frame[where g = policy_losses]
        funpow_frame[where g = adversary_losses]
        funpow_frame[where g = "\<lambda>t. res_value_losses (results_dict t)"]
        funpow_frame[where g = "\<lambda>t. res_policy_losses (results_dict t)"]
        funpow_frame[where g = "\<lambda>t. res_adversary_losses (results_dict t)"]
        funpow_frame[where g = total_steps],
      rule eval_step_losses)+

lemma checkpoint_losses:
  "value_losses (checkpoint c b s) = value_losses s"
  "policy_losses (checkpoint c b s) = policy_losses s"
  "adversary_losses (checkpoint c b s) = adversary_losses s"
  "results_dict (checkpoint c b s) = results_dict s"
  "total_steps (checkpoint c b s) = total_steps s"
  by (simp_all add: checkpoint_def Let_def)


lemma initial_losses:
  assumes "initial c w0 h0 a = Inr (n, s0)"
  shows "value_losses s0 = []" and "policy_losses s0 = []" and "adversary_losses s0 = []"
  using assms
  by (auto simp: initial_def reset_noise_def Let_def split: if_splits prod.splits sum.splits)

lemma cycle_accumulators:
  assumes "value_losses s = [] \<and> policy_losses s = [] \<and> adversary_losses s = []"
    and "cycle c a b s = Inr s'"
  shows "value_losses s' = [] \<and> policy_losses s' = [] \<and> adversary_losses s' = []"
proof -
  from assms(2) obtain s2 where up: "update_phase c a (rollout_phase c a s) = Inr s2"
    and s': "s' = checkpoint c b (eval_phase c a s2)"
    by (auto simp: cycle_def split: sum.splits)
  have "value_losses s2 = [] \<and> policy_losses s2 = [] \<and> adversary_losses s2 = []"
  proof (cases "batch_size a < memory_len c (world (rollout_phase c a s))")
    case True
    with up obtain s3 where "s2 = record_losses s3"
      by (auto simp: update_phase_def split: sum.splits)
    then show ?thesis by (simp add: record_losses_def)
  next
    case False
    with up have "s2 = rollout_phase c a s" by (simp add: update_phase_def)
    then show ?thesis using assms(1) by (simp add: rollout_phase_losses)
  qed
  then show ?thesis unfolding s' by (simp add: checkpoint_losses eval_phase_losses)
qed

lemma run_accumulators:
  assumes "main (c :: ('w, 'e, 'r, 'i) collab) w0 h0 u = Inr s"
  shows "value_losses s = [] \<and> policy_losses s = [] \<and> adversary_losses s = []"
proof -
  from assms obtain a n s0 s1 where init: "initial c w0 h0 a = Inr (n, s0)"
    and tr: "train c (a\<lparr>ratio := ratio a + 1\<rparr>) (base_dir_of c a) n s0 = Inr s1"
    and ex: "export_dataset c (a\<lparr>ratio := ratio a + 1\<rparr>) s1 = Inr s"
    by (auto elim!: main_Inr)
  define I :: "('w, 'e, 'i) vars \<Rightarrow> bool"
    where "I = (\<lambda>t. value_losses t = [] \<and> policy_losses t = [] \<and> adversary_losses t = [])"
  have start: "I s0" using initial_losses[OF init] by (simp add: I_def)
  have cyc: "\<And>t t'. I t \<Longrightarrow>
      cycle c (a\<lparr>ratio := ratio a + 1\<rparr>) (base_dir_of c a) t = Inr t' \<Longrightarrow> I t'"
    unfolding I_def by (rule cycle_accumulators)
  have ep: "\<And>t t'. I t \<Longrightarrow>
      epoch c (a\<lparr>ratio := ratio a + 1\<rparr>) (base_dir_of c a) t = Inr t' \<Longrightarrow> I t'"
    unfolding epoch_def using cyc by (rule repeat_invariant)
  have "I s1" using ep start tr unfolding train_def by (rule repeat_invariant)
  then show ?thesis
    using ex unfolding I_def
    by (auto simp: export_dataset_def Let_def split: if_splits prod.splits option.splits)
qed

subsection \<open>C10: the losses that a cycle records\<close>



subsection \<open>C3: the adaptation of the parameter noise\<close>

lemma noise_schedule_steps:
  "noise_schedule (trace (rollout_step c a s)) = noise_schedule (trace s)"
  "noise_schedule (trace (eval_step c s)) = noise_schedule (trace s)"
  "noise_schedule (trace (checkpoint c b s)) = noise_schedule (trace s)"
proof -
  show "noise_schedule (trace (rollout_step c a s)) = noise_schedule (trace s)"
    using rollout_step_calls[of c a s] by auto
  show "noise_schedule (trace (eval_step c s)) = noise_schedule (trace s)"
    using eval_step_calls[of c s] by auto
  show "noise_schedule (trace (checkpoint c b s)) = noise_schedule (trace s)"
    using checkpoint_calls[of c b s] by auto
qed

lemma noise_schedule_initial:
  assumes "initial c w0 h0 a = Inr (n, s0)"
  shows "noise_schedule (trace s0) = []"
  using assms
  by (auto simp: initial_def reset_noise_def Let_def noise_schedule_def
        split: if_splits prod.splits sum.splits)

lemma noise_schedule_export:
  assumes "export_dataset c a s = Inr s'"
  shows "noise_schedule (trace s') = noise_schedule (trace s)"
  using assms
  by (auto simp: export_dataset_def Let_def noise_schedule_def
        split: if_splits prod.splits sum.splits option.splits)

lemma train_steps_checkpoint [simp]: "train_steps (checkpoint c b s) = train_steps s"
  by (simp add: checkpoint_def Let_def)

lemma update_step_adaptation:
  assumes "update_step c a s = Inr s'"
  shows "\<exists>adv vl pl al. calls_since s s' =
     (if param_noise a \<and> train_steps s mod param_noise_interval a = 0
      then expected_adaptation c a s else [])
     @ [Call_update_parameters (batch_size a) (method' a) adv (exploration_method a) vl pl al]"
  using assms
  by (auto simp: update_step_def adapt_param_noise_def py_mod_def adversary_update_def Let_def
        calls_since_def expected_adaptation_def
        split: if_splits prod.splits sum.splits)

lemma flag_cases: "(p \<and> \<not> f \<or> \<not> p \<and> f) = (p = (\<not> f))"
  by auto

lemma update_step_world:
  assumes "update_step c a t = Inr t'"
  shows "world t' =
     fst (update_parameters c
            (if param_noise a \<and> train_steps t mod param_noise_interval a = 0
             then adapted_world c a t else world t)
            (batch_size a) (method' a)
            ((train_steps t mod ratio a = 0) = (\<not> flip_ratio a))
            (exploration_method a))"
proof (cases "param_noise a \<and> train_steps t mod param_noise_interval a = 0")
  case True
  with assms show ?thesis
    by (auto simp: update_step_def adapt_param_noise_def adapted_world_def py_mod_def
          adversary_update_def Let_def flag_cases
          split: if_splits prod.splits)
next
  case False
  with assms show ?thesis
    by (auto simp: update_step_def py_mod_def adversary_update_def Let_def flag_cases
          split: if_splits prod.splits)
qed

lemma world_reset_noise:
  "world (reset_noise c an pn s) =
     (if pn \<noteq> None
      then perturb_actor_parameters c (if an \<noteq> None then noise_reset c (world s) else world s)
      else (if an \<noteq> None then noise_reset c (world s) else world s))"
  by (simp add: reset_noise_def Let_def)

lemma rollout_step_world:
  "world (rollout_step c a t) =
     (if ended (step_taken c a t)
      then world (reset_noise c (ounoise a) (param_noise_object a)
                    (t\<lparr>world := stored_world c a t\<rparr>))
      else stored_world c a t)"
  by (simp add: rollout_step_def step_taken_def ended_def stored_world_def
        executed_transition_def world_reset_noise Let_def case_prod_beta)

text \<open>
  C3, as the claim states it, fails. On the instance that records what the agent
  receives, take a run with parameter noise, method \<open>mdp\<close>, one cycle of two rollout steps,
  batch size 1 and one update step. The batch sampled at the update step holds the state
  \<open>[0]\<close> with the stored action \<open>[1]\<close>: the mean action 0 of the policy plus the action
  noise 1 of the rollout. On that state the perturbed and the unperturbed policy both
  give 0, so the distance of the claim is 0; \<open>adapt\<close> receives 1.
\<close>

theorem C3_distance_includes_action_noise:
  "(case configure (parse_args ((toy_cli 2 1 2 1 1)\<lparr>cli_param_noise := True,
            cli_method := Some Mdp, cli_seed := Some 0\<rparr>)) of
      Inl e \<Rightarrow> False
    | Inr a \<Rightarrow>
        (case initial (toy_noisy None) toy_world0 toy_noisy_heap a of
           Inl e \<Rightarrow> False
         | Inr (n, s0) \<Rightarrow>
             (let t = rollout_phase (toy_noisy None) a s0;
                  batch = snd (memory_sample (toy_noisy None) (world t) (batch_size a));
                  states = stack (map fst batch)
              in batch = [([0], [1], [1], [1], [1])]
                 \<and> claimed_distance (toy_noisy None) (world t) states = Float 0
                 \<and> w_adapted (world (adapt_param_noise (toy_noisy None) a t)) = [Float 1])))
   \<and> outcome (w_adapted \<circ> world)
         (main (toy_noisy None) toy_world0 toy_noisy_heap
            ((toy_cli 2 1 2 1 1)\<lparr>cli_param_noise := True, cli_method := Some Mdp,
               cli_seed := Some 0\<rparr>))
       = Some [Float 1]"
  by code_simp

text \<open>
  C3, amended. \<open>ddpg_distance_metric\<close> is the root-mean-square difference of the
  specification. When parameter noise is enabled and \<open>train_steps\<close> is a multiple of
  \<open>param_noise_interval\<close>, an update step samples a batch from the replay memory, asks the
  unperturbed policy (no noise, \<open>mdp_type = 'mdp'\<close>) for its actions on the states of the
  batch, and calls \<open>adapt\<close> with the distance between the actions stored in the batch and
  those unperturbed actions; \<open>update_parameters\<close> then runs on the agent that \<open>adapt\<close> left.
  On every other update step \<open>update_parameters\<close> runs on the agent as it was: nothing is
  sampled and \<open>adapt\<close> is not called. The transitions that the script puts into the replay
  memory are those of the training rollout, whose actions \<open>select_action\<close> returned with
  the action noise, the parameter noise and the exploration method of the run. Over a
  whole run, the update step made when \<open>train_steps\<close> is \<open>k\<close> is preceded by one call of
  \<open>adapt\<close> if parameter noise is enabled and \<open>k\<close> is a multiple of the interval, and by
  none otherwise.
\<close>

theorem C3_param_noise_adaptation:
  assumes "configure (parse_args u) = Inr a"
    and "main (c :: ('w, 'e, 'r, 'i) collab) w0 h0 u = Inr s"
  shows "noise_schedule (trace s) =
           concat (map (\<lambda>k. if param_noise a \<and> int k mod param_noise_interval a = 0
                             then [True, False] else [False])
             [0..<nat (train_steps s)])
     \<and> (\<forall>a' t t'. update_step c a' t = Inr t' \<longrightarrow>
           world t' =
             fst (update_parameters c
                    (if param_noise a' \<and> train_steps t mod param_noise_interval a' = 0
                     then adapted_world c a' t else world t)
                    (batch_size a') (method' a')
                    ((train_steps t mod ratio a' = 0) = (\<not> flip_ratio a'))
                    (exploration_method a'))
           \<and> (\<exists>adv vl pl al. calls_since t t' =
                (if param_noise a' \<and> train_steps t mod param_noise_interval a' = 0
                 then expected_adaptation c a' t else [])
                @ [Call_update_parameters (batch_size a') (method' a') adv
                     (exploration_method a') vl pl al]))
     \<and> (\<forall>a' t. world (rollout_step c a' t) =
           (if ended (step_taken c a' t)
            then world (reset_noise c (ounoise a') (param_noise_object a')
                          (t\<lparr>world := stored_world c a' t\<rparr>))
            else stored_world c a' t))"
proof (intro conjI)
  define a1 where "a1 = a\<lparr>ratio := ratio a + 1\<rparr>"
  define G where "G = (\<lambda>k. if param_noise a \<and> int k mod param_noise_interval a = 0
                            then [True, False] else [False])"
  define I :: "('w, 'e, 'i) vars \<Rightarrow> bool" where
    "I = (\<lambda>s. 0 \<le> train_steps s
            \<and> noise_schedule (trace s) = concat (map G [0..<nat (train_steps s)]))"
  from assms obtain n s0 s1 where init: "initial c w0 h0 a = Inr (n, s0)"
    and tr: "train c a1 (base_dir_of c a) n s0 = Inr s1"
    and ex: "export_dataset c a1 s1 = Inr s"
    unfolding a1_def by (auto elim!: main_Inr)
  have start: "I s0"
    using noise_schedule_initial[OF init] adversary_flags_initial(2)[OF init] by (simp add: I_def)
  have upd: "I t'" if "I t" and "update_step c a1 t = Inr t'" for t t'
  proof -
    from that(1) have nonneg: "0 \<le> train_steps t"
      and sch: "noise_schedule (trace t) = concat (map G [0..<nat (train_steps t)])"
      by (simp_all add: I_def)
    have ts: "train_steps t' = train_steps t + 1"
      by (rule update_step_frame(1)[OF that(2)])
    have n: "nat (train_steps t') = Suc (nat (train_steps t))"
      using nonneg ts by linarith
    from update_step_calls[OF that(2)] obtain evs where evs: "trace t' = trace t @ evs"
      "noise_schedule evs =
         (if param_noise a1 \<and> train_steps t mod param_noise_interval a1 = 0
          then [True, False] else [False])"
      by blast
    have "noise_schedule evs = G (nat (train_steps t))"
      using nonneg evs(2) by (simp add: G_def a1_def)
    then have "noise_schedule (trace t') = concat (map G [0..<nat (train_steps t')])"
      unfolding n using evs(1) sch by simp
    moreover have "0 \<le> train_steps t'" using nonneg ts by linarith
    ultimately show ?thesis unfolding I_def by blast
  qed
  have "I s1"
  proof (rule train_invariant[where I = I, OF _ _ _ _ _ start tr])
    show "I (rollout_step c a1 t)" if "I t" for t
      using that by (simp add: I_def noise_schedule_steps)
    show "I t'" if "I t" and "update_step c a1 t = Inr t'" for t t'
      using that by (rule upd)
    show "I (record_losses t)" if "I t" for t
      using that by (simp add: I_def)
    show "I (eval_step c t)" if "I t" for t
      using that by (simp add: I_def noise_schedule_steps)
    show "I (checkpoint c (base_dir_of c a) t)" if "I t" for t
      using that by (simp add: I_def noise_schedule_steps)
  qed
  then show "noise_schedule (trace s) =
           concat (map (\<lambda>k. if param_noise a \<and> int k mod param_noise_interval a = 0
                             then [True, False] else [False])
             [0..<nat (train_steps s)])"
    using noise_schedule_export[OF ex] adversary_flags_export(2)[OF ex] by (simp add: I_def G_def)
next
  show "\<forall>a' t t'. update_step c a' t = Inr t' \<longrightarrow>
           world t' =
             fst (update_parameters c
                    (if param_noise a' \<and> train_steps t mod param_noise_interval a' = 0
                     then adapted_world c a' t else world t)
                    (batch_size a') (method' a')
                    ((train_steps t mod ratio a' = 0) = (\<not> flip_ratio a'))
                    (exploration_method a'))
           \<and> (\<exists>adv vl pl al. calls_since t t' =
                (if param_noise a' \<and> train_steps t mod param_noise_interval a' = 0
                 then expected_adaptation c a' t else [])
                @ [Call_update_parameters (batch_size a') (method' a') adv
                     (exploration_method a') vl pl al])"
    using update_step_world update_step_adaptation by blast
next
  show "\<forall>a' t. world (rollout_step c a' t) =
           (if ended (step_taken c a' t)
            then world (reset_noise c (ounoise a') (param_noise_object a')
                          (t\<lparr>world := stored_world c a' t\<rparr>))
            else stored_world c a' t)"
    using rollout_step_world by blast
qed

theorem C3_param_noise_adaptation_witness:
  "outcome (noise_schedule \<circ> trace)
       (main (toy_noisy None) toy_world0 toy_noisy_heap
          ((toy_cli 2 1 2 1 3)\<lparr>cli_param_noise := True, cli_param_noise_interval := Some 2,
             cli_method := Some Mdp, cli_seed := Some 0\<rparr>))
     = Some [True, False, False, True, False]
   \<and> (case configure (parse_args ((toy_cli 2 1 2 1 3)\<lparr>cli_param_noise := True,
             cli_param_noise_interval := Some 2, cli_method := Some Mdp,
             cli_seed := Some 0\<rparr>)) of
         Inl e \<Rightarrow> False
       | Inr a \<Rightarrow>
           (case update_step (toy_noisy None) a (toy_noisy_vars [([0], [1], [1], [1], [1])]) of
              Inl e \<Rightarrow> False
            | Inr t' \<Rightarrow>
                w_adapted (world t') = [Float 1]
                \<and> w_selected (world t') = [(None, None, Some Mdp)]
                \<and> noise_schedule (calls_since (toy_noisy_vars [([0], [1], [1], [1], [1])]) t')
                    = [True, False])
           \<and> w_memory (world (rollout_step (toy_noisy None) a (toy_noisy_vars [])))
               = [([0], [1], [1], [1], [1])]
           \<and> w_selected (world (rollout_step (toy_noisy None) a (toy_noisy_vars [])))
               = [(Some OrnsteinUhlenbeckActionNoise, Some AdaptiveParamNoiseSpec, Some Mdp)])"
proof -
  define U where
    "U = (toy_cli 2 1 2 1 3)\<lparr>cli_param_noise := True, cli_param_noise_interval := Some 2,
            cli_method := Some Mdp, cli_seed := Some 0\<rparr>"
  define T where "T = toy_noisy_vars [([0], [1], [1], [1], [1])]"
  define T0 where "T0 = toy_noisy_vars []"
  have "case configure (parse_args U) of
          Inl e \<Rightarrow> False
        | Inr a \<Rightarrow>
            param_noise a \<and> param_noise_interval a = 2 \<and> train_steps T = 0
            \<and> w_adapted (fst (update_parameters (toy_noisy None) (adapted_world (toy_noisy None) a T)
                  (batch_size a) (method' a)
                  ((train_steps T mod ratio a = 0) = (\<not> flip_ratio a))
                  (exploration_method a))) = [Float 1]
            \<and> w_selected (fst (update_parameters (toy_noisy None) (adapted_world (toy_noisy None) a T)
                  (batch_size a) (method' a)
                  ((train_steps T mod ratio a = 0) = (\<not> flip_ratio a))
                  (exploration_method a))) = [(None, None, Some Mdp)]
            \<and> noise_schedule (expected_adaptation (toy_noisy None) a T) = [True]
            \<and> (case update_step (toy_noisy None) a T of Inl e \<Rightarrow> False | Inr t' \<Rightarrow> True)
            \<and> \<not> ended (step_taken (toy_noisy None) a T0)
            \<and> w_memory (stored_world (toy_noisy None) a T0) = [([0], [1], [1], [1], [1])]
            \<and> w_selected (stored_world (toy_noisy None) a T0)
                = [(Some OrnsteinUhlenbeckActionNoise, Some AdaptiveParamNoiseSpec, Some Mdp)]"
    unfolding U_def T_def T0_def by code_simp
  then obtain a t' where cfg: "configure (parse_args U) = Inr a"
    and a: "param_noise a" "param_noise_interval a = 2" "train_steps T = 0"
    and adapted: "w_adapted (fst (update_parameters (toy_noisy None)
                  (adapted_world (toy_noisy None) a T) (batch_size a) (method' a)
                  ((train_steps T mod ratio a = 0) = (\<not> flip_ratio a))
                  (exploration_method a))) = [Float 1]"
      "w_selected (fst (update_parameters (toy_noisy None)
                  (adapted_world (toy_noisy None) a T) (batch_size a) (method' a)
                  ((train_steps T mod ratio a = 0) = (\<not> flip_ratio a))
                  (exploration_method a))) = [(None, None, Some Mdp)]"
    and expected: "noise_schedule (expected_adaptation (toy_noisy None) a T) = [True]"
    and step: "update_step (toy_noisy None) a T = Inr t'"
    and stored: "\<not> ended (step_taken (toy_noisy None) a T0)"
      "w_memory (stored_world (toy_noisy None) a T0) = [([0], [1], [1], [1], [1])]"
      "w_selected (stored_world (toy_noisy None) a T0)
         = [(Some OrnsteinUhlenbeckActionNoise, Some AdaptiveParamNoiseSpec, Some Mdp)]"
    by (auto split: sum.splits)
  have "case main (toy_noisy None) toy_world0 toy_noisy_heap U of
          Inl e \<Rightarrow> False | Inr s \<Rightarrow> train_steps s = 3"
    unfolding U_def by code_simp
  then obtain s where run: "main (toy_noisy None) toy_world0 toy_noisy_heap U = Inr s"
    and s: "train_steps s = 3"
    by (auto split: sum.splits)
  note th = C3_param_noise_adaptation[OF cfg run]
  have upt: "[0..<nat 3] = [0, 1, 2]" by (simp add: upt_rec numeral_eq_Suc)
  have first: "outcome (noise_schedule \<circ> trace) (main (toy_noisy None) toy_world0 toy_noisy_heap U)
      = Some [True, False, False, True, False]"
    using th[THEN conjunct1] a(1,2) s upt run by (simp add: outcome_def)
  note upd = th[THEN conjunct2, THEN conjunct1, rule_format, OF step]
  have w: "world t' = fst (update_parameters (toy_noisy None)
                  (adapted_world (toy_noisy None) a T) (batch_size a) (method' a)
                  ((train_steps T mod ratio a = 0) = (\<not> flip_ratio a))
                  (exploration_method a))"
    using upd[THEN conjunct1] a by simp
  from upd[THEN conjunct2] a obtain adv vl pl al where
    "calls_since T t' = expected_adaptation (toy_noisy None) a T
       @ [Call_update_parameters (batch_size a) (method' a) adv (exploration_method a) vl pl al]"
    by auto
  then have sched: "noise_schedule (calls_since T t') = [True, False]"
    using expected by (simp add: noise_schedule_def)
  have roll: "world (rollout_step (toy_noisy None) a T0) = stored_world (toy_noisy None) a T0"
    using th[THEN conjunct2, THEN conjunct2, rule_format, of a T0] stored(1) by simp
  show ?thesis
    using first cfg step w adapted sched roll stored(2,3)
    unfolding U_def T_def T0_def by simp
qed

subsection \<open>C6: evaluation and the training environment\<close>

lemma env_step_simulator:
  "\<exists>action'. fst (env_step c h r action) =
     h(simulator_of r := fst (sim_step c (h (simulator_of r)) action'))"
proof (induction r arbitrary: action)
  case (Gym p)
  show ?case by (intro exI[of _ action]) (auto simp: Let_def split: prod.splits)
next
  case (NormalizedActions r)
  from NormalizedActions[of "normalized_action c action"] show ?case by simp
qed

lemma initial_shares_simulator:
  assumes "initial c w0 h0 a = Inr (n, s0)"
  shows "simulator_of (eval_env s0) = simulator_of (env s0)"
  using assms
  by (auto simp: initial_def reset_noise_def Let_def split: if_splits prod.splits sum.splits)

text \<open>
  C6. Line 98 builds \<open>eval_env\<close> by wrapping \<open>env\<close>, so both references end in the one
  simulator that line 95 made. On the small instance, with one step per phase: after the
  set-up the training simulator has taken 0 steps; an evaluation phase leaves the variable
  \<open>state\<close> as it was but moves the training simulator to 1; and the training step that
  follows observes 2, where without the evaluation phase it would observe 1.
\<close>

theorem C6_evaluation_steps_training_simulator:
  "case configure (parse_args (toy_cli 2 1 1 1 3)) of
     Inl e \<Rightarrow> False
   | Inr a \<Rightarrow>
       (case initial (toy None) 0 toy_heap a of
          Inl e \<Rightarrow> False
        | Inr (n, s) \<Rightarrow>
            simulator_of (eval_env s) = simulator_of (env s)
            \<and> training_simulator s = 0
            \<and> training_simulator (eval_phase (toy None) a s) = 1
            \<and> state (eval_phase (toy None) a s) = state s
            \<and> state (rollout_step (toy None) a s) = [1]
            \<and> state (rollout_step (toy None) a (eval_phase (toy None) a s)) = [2])"
  by code_simp

subsection \<open>Counting the rollout steps\<close>

lemma repeat_count:
  fixes g :: "'s \<Rightarrow> int"
  assumes "\<And>s s'. body s = Inr s' \<Longrightarrow> g s' = g s + d"
    and "repeat n body s = Inr s'"
  shows "g s' = g s + int n * d"
  using assms(2)
proof (induction n arbitrary: s)
  case 0
  then show ?case by simp
next
  case (Suc n)
  then obtain s1 where first: "body s = Inr s1" and rest: "repeat n body s1 = Inr s'"
    by (auto split: sum.splits)
  have "g s' = g s1 + int n * d" by (rule Suc.IH[OF rest])
  also have "g s1 = g s + d" by (rule assms(1)[OF first])
  finally show ?case by (simp add: algebra_simps)
qed

lemma funpow_count:
  fixes g :: "'s \<Rightarrow> int"
  assumes "\<And>s. g (f s) = g s + d"
  shows "g ((f ^^ n) s) = g s + int n * d"
  by (induction n) (simp_all add: assms algebra_simps)

lemma total_steps_rollout_step: "total_steps (rollout_step c a s) = total_steps s + 1"
  by (simp add: rollout_step_def reset_noise_def Let_def split: prod.splits)

lemma total_steps_rollout_phase:
  "total_steps (rollout_phase c a s) = total_steps s + int (nat (num_rollout_steps a))"
  unfolding rollout_phase_def
  using funpow_count[where g = total_steps and f = "rollout_step c a" and d = 1,
      OF total_steps_rollout_step]
  by simp

lemma total_steps_update_phase:
  assumes "update_phase c a s = Inr s'"
  shows "total_steps s' = total_steps s"
proof (cases "batch_size a < memory_len c (world s)")
  case True
  with assms obtain s1 where rep: "repeat (nat (number_of_train_steps a)) (update_step c a) s = Inr s1"
    and s': "s' = record_losses s1"
    by (auto simp: update_phase_def split: sum.splits)
  from update_steps_calls[OF rep] have "total_steps s1 = total_steps s" by blast
  then show ?thesis by (simp add: s')
next
  case False
  with assms show ?thesis by (simp add: update_phase_def)
qed

lemma total_steps_cycle:
  assumes "cycle c a b s = Inr s'"
  shows "total_steps s' = total_steps s + int (nat (num_rollout_steps a))"
proof -
  from assms obtain s1 where up: "update_phase c a (rollout_phase c a s) = Inr s1"
    and s': "s' = checkpoint c b (eval_phase c a s1)"
    by (auto simp: cycle_def split: sum.splits)
  show ?thesis
    unfolding s'
    by (simp add: checkpoint_losses eval_phase_losses total_steps_update_phase[OF up]
          total_steps_rollout_phase)
qed

lemma total_steps_train:
  assumes "train c a b nb s = Inr s'"
  shows "total_steps s' =
           total_steps s + int (nat nb * nat (num_epochs_cycles a) * nat (num_rollout_steps a))"
proof -
  have ep: "total_steps t' =
      total_steps t + int (nat (num_epochs_cycles a)) * int (nat (num_rollout_steps a))"
    if run: "epoch c a b t = Inr t'" for t t'
  proof (rule repeat_count[where body = "cycle c a b"])
    show "total_steps u' = total_steps u + int (nat (num_rollout_steps a))"
      if "cycle c a b u = Inr u'" for u u'
      using that by (rule total_steps_cycle)
    show "repeat (nat (num_epochs_cycles a)) (cycle c a b) t = Inr t'"
      using run by (simp add: epoch_def)
  qed
  have "total_steps s' = total_steps s
      + int (nat nb) * (int (nat (num_epochs_cycles a)) * int (nat (num_rollout_steps a)))"
  proof (rule repeat_count[where body = "epoch c a b"])
    show "total_steps u' =
        total_steps u + int (nat (num_epochs_cycles a)) * int (nat (num_rollout_steps a))"
      if "epoch c a b u = Inr u'" for u u'
      using that by (rule ep)
    show "repeat (nat nb) (epoch c a b) s = Inr s'"
      using assms by (simp add: train_def)
  qed
  then show ?thesis by (simp add: algebra_simps)
qed

lemma initial_nb_epochs:
  assumes "initial c w0 h0 a = Inr (nb, s0)"
  shows "nb_epochs_of a = Inr nb" and "total_steps s0 = 0"
  using assms
  by (auto simp: initial_def try_makedirs_def reset_noise_def Let_def
        split: if_splits prod.splits sum.splits option.splits)

lemma total_steps_export:
  assumes "export_dataset c a s = Inr s'"
  shows "total_steps s' = total_steps s"
  using assms
  by (auto simp: export_dataset_def Let_def split: if_splits prod.splits sum.splits option.splits)

lemma floor_steps_bound:
  fixes n cyc roll :: int
  assumes "0 \<le> n"
  shows "int (nat (n div (cyc * roll)) * nat cyc * nat roll) \<le> n"
proof (cases "0 < cyc \<and> 0 < roll")
  case True
  then have pos: "0 < cyc * roll" by simp
  then have nonneg: "0 \<le> n div (cyc * roll)" using assms by (simp add: pos_imp_zdiv_nonneg_iff)
  have "int (nat (n div (cyc * roll)) * nat cyc * nat roll) = (n div (cyc * roll)) * (cyc * roll)"
    using True nonneg by simp
  also have "\<dots> \<le> n"
    using pos by (metis mult.commute mult_div_mod_eq pos_mod_sign le_add_same_cancel1)
  finally show ?thesis .
next
  case False
  then have "nat cyc = 0 \<or> nat roll = 0" by auto
  then show ?thesis using assms by auto
qed

lemma configure_keeps:
  assumes "configure a0 = Inr a"
  shows "num_steps a = num_steps a0" and "num_epochs a = num_epochs a0"
    and "num_epochs_cycles a = num_epochs_cycles a0"
    and "num_rollout_steps a = num_rollout_steps a0"
  using assms by (auto simp: configure_def Let_def split: sum.splits if_splits)

subsection \<open>C9: the number of epochs\<close>

text \<open>
  C9, as the claim states it, fails: a command line that gives no \<open>--num_steps\<close> does
  not lead to 500 epochs. The parser supplies the default 2000000, and with the default
  cycle and rollout sizes the run has 1000 epochs.
\<close>

theorem C9_default_run_has_1000_epochs:
  "cli_num_steps no_options = None
   \<and> outcome nb_epochs_of (configure (parse_args no_options)) = Some (Inr 1000)"
  by code_simp

text \<open>
  C9, amended. The parser always supplies \<open>num_steps\<close>, the value of the user or the
  default 2000000. So a \<open>--num_epochs\<close> value always fails the assertion of line 164, and
  otherwise the number of epochs is \<open>num_steps // (num_epochs_cycles * num_rollout_steps)\<close>,
  with a \<open>ZeroDivisionError\<close> when that product is 0. A run that ends without an exception
  has executed as many training rollout steps as the three loops give (a negative bound
  counts as 0), and that number does not exceed a non-negative \<open>num_steps\<close>. The branch
  with 500 epochs is taken only by arguments whose \<open>num_steps\<close> is \<open>None\<close>, which the
  parser never returns.
\<close>

theorem C9_number_of_epochs:
  assumes "configure (parse_args u) = Inr a"
  shows "num_steps a = Some (or_default 2000000 (cli_num_steps u))
     \<and> nb_epochs_of a =
         (if cli_num_epochs u \<noteq> None then Inl AssertionError
          else py_floordiv (or_default 2000000 (cli_num_steps u))
                 (num_epochs_cycles a * num_rollout_steps a))
     \<and> (\<forall>s. main (c :: ('w, 'e, 'r, 'i) collab) w0 h0 u = Inr s \<longrightarrow>
           total_steps s =
             int (nat (or_default 2000000 (cli_num_steps u)
                         div (num_epochs_cycles a * num_rollout_steps a))
                  * nat (num_epochs_cycles a) * nat (num_rollout_steps a))
           \<and> (0 \<le> or_default 2000000 (cli_num_steps u) \<longrightarrow>
                 total_steps s \<le> or_default 2000000 (cli_num_steps u)))
     \<and> (\<forall>a'. num_steps a' = None \<longrightarrow> nb_epochs_of a' = Inr 500)"
proof (intro conjI allI impI)
  define N where "N = or_default 2000000 (cli_num_steps u)"
  show steps: "num_steps a = Some (or_default 2000000 (cli_num_steps u))"
    using configure_keeps(1)[OF assms] by (simp add: parse_args_def)
  show epochs: "nb_epochs_of a =
         (if cli_num_epochs u \<noteq> None then Inl AssertionError
          else py_floordiv (or_default 2000000 (cli_num_steps u))
                 (num_epochs_cycles a * num_rollout_steps a))"
    using steps configure_keeps(2)[OF assms] by (simp add: nb_epochs_of_def parse_args_def)
  show "nb_epochs_of a' = Inr 500" if "num_steps a' = None" for a'
    using that by (simp add: nb_epochs_of_def)
  fix s
  assume run: "main c w0 h0 u = Inr s"
  from run assms obtain nb s0 s1 where init: "initial c w0 h0 a = Inr (nb, s0)"
    and tr: "train c (a\<lparr>ratio := ratio a + 1\<rparr>) (base_dir_of c a) nb s0 = Inr s1"
    and ex: "export_dataset c (a\<lparr>ratio := ratio a + 1\<rparr>) s1 = Inr s"
    by (auto elim!: main_Inr)
  have "nb_epochs_of a = Inr nb" by (rule initial_nb_epochs(1)[OF init])
  then have nb: "nb = or_default 2000000 (cli_num_steps u)
                        div (num_epochs_cycles a * num_rollout_steps a)"
    using epochs by (auto simp: py_floordiv_def split: if_splits)
  show total: "total_steps s =
             int (nat (or_default 2000000 (cli_num_steps u)
                         div (num_epochs_cycles a * num_rollout_steps a))
                  * nat (num_epochs_cycles a) * nat (num_rollout_steps a))"
    using total_steps_train[OF tr] total_steps_export[OF ex] initial_nb_epochs(2)[OF init] nb
    by simp
  show "total_steps s \<le> or_default 2000000 (cli_num_steps u)"
    if "0 \<le> or_default 2000000 (cli_num_steps u)"
    unfolding total using that by (rule floor_steps_bound)
qed

theorem C9_number_of_epochs_witness:
  "\<exists>a. configure (parse_args (toy_cli 5 1 2 1 3)) = Inr a
     \<and> num_steps a = Some 5
     \<and> nb_epochs_of a = Inr 2
     \<and> outcome total_steps (main (toy None) 0 toy_heap (toy_cli 5 1 2 1 3)) = Some 4"
proof -
  have "case configure (parse_args (toy_cli 5 1 2 1 3)) of
          Inl e \<Rightarrow> False
        | Inr a \<Rightarrow> num_epochs_cycles a = 1 \<and> num_rollout_steps a = 2"
    by code_simp
  then obtain a where cfg: "configure (parse_args (toy_cli 5 1 2 1 3)) = Inr a"
    and a: "num_epochs_cycles a = 1" "num_rollout_steps a = 2"
    by (auto split: sum.splits)
  have "case main (toy None) 0 toy_heap (toy_cli 5 1 2 1 3) of Inl e \<Rightarrow> False | Inr s \<Rightarrow> True"
    by code_simp
  then obtain s where run: "main (toy None) 0 toy_heap (toy_cli 5 1 2 1 3) = Inr s"
    by (auto split: sum.splits)
  have u: "cli_num_steps (toy_cli 5 1 2 1 3) = Some 5 \<and> cli_num_epochs (toy_cli 5 1 2 1 3) = None"
    by code_simp
  note th = C9_number_of_epochs[OF cfg, where c = "toy None" and ?w0.0 = 0 and ?h0.0 = toy_heap]
  have "total_steps s = 4"
    using th[THEN conjunct2, THEN conjunct2, THEN conjunct1, rule_format, OF run] a u
    by (simp add: or_default_def)
  moreover have "num_steps a = Some 5"
    using th[THEN conjunct1] u by (simp add: or_default_def)
  moreover have "nb_epochs_of a = Inr 2"
    using th[THEN conjunct2, THEN conjunct1] a u by (simp add: or_default_def py_floordiv_def)
  ultimately show ?thesis using cfg run by (simp add: outcome_def)
qed

subsection \<open>The bookkeeping of the dataset\<close>


















subsection \<open>C8: the exported dataset\<close>




end
